theory Spec2Isabelle
  imports Complex_Main
begin

section \<open>Basic types (core/types.h)\<close>

text \<open>
  The simulator's \<^verbatim>\<open>float\<close> and \<^verbatim>\<open>double\<close> quantities (bets, wins, balances, payout
  factors) are modelled as \<^typ>\<open>real\<close>: every property below is about which value is
  selected, summed or compared, not about rounding. The C++ \<^verbatim>\<open>int\<close> values (symbols,
  grid indices, counters) are modelled as \<^typ>\<open>int\<close>: the counters of a session count up
  from zero and are bounded by its spin cap. Where the source computes on an \<^verbatim>\<open>int\<close>
  that a caller chooses freely (the decrement of the remaining free spins in
  \<^verbatim>\<open>SlotMachine::Spin\<close>), the 32-bit result is written out with \<open>int32\<close>: the value
  of the two's-complement wrap-around, which is what the compiled subtraction yields when
  the mathematical result leaves the range from -2147483648 to 2147483647.
\<close>

type_synonym SpinGrid = "int list"
type_synonym PaylineIndices = "int list"
type_synonym PayoutArray = "real list"
type_synonym BetOptions = "real list"

datatype error =
    InvalidArgument string
  | RuntimeError string
  | LengthError
  | DivisionByZero

definition int32 :: "int \<Rightarrow> int" where
  "int32 x = (x + 2147483648) mod 4294967296 - 2147483648"

section \<open>std::to_string on int\<close>

definition digit_char :: "nat \<Rightarrow> char" where
  "digit_char d = ''0123456789'' ! d"

function to_string_nat :: "nat \<Rightarrow> string" where
  "to_string_nat n =
     (if n < 10 then [digit_char n]
      else to_string_nat (n div 10) @ [digit_char (n mod 10)])"
  by pat_completeness auto
termination
  by (relation "measure (\<lambda>n. n)") auto

declare to_string_nat.simps [simp del]

definition to_string :: "int \<Rightarrow> string" where
  "to_string i =
     (if i < 0 then CHR ''-'' # to_string_nat (nat (- i)) else to_string_nat (nat i))"

section \<open>Pay table (machines/paytable.cpp)\<close>

record PayTable =
  pay_table' :: "string \<rightharpoonup> PayoutArray"
  paylines' :: "PaylineIndices list"

text \<open>
  A C++ data member \<^verbatim>\<open>name_\<close> is written \<open>name'\<close> (an identifier cannot end in an
  underscore); where two classes share a member name, the later one carries the class
  name as a prefix.
\<close>

text \<open>\<^verbatim>\<open>PayTable::GetPaylineSymbols\<close>: indices outside the grid are skipped.\<close>

definition GetPaylineSymbols :: "SpinGrid \<Rightarrow> PaylineIndices \<Rightarrow> int list" where
  "GetPaylineSymbols grid payline =
     map (\<lambda>index. grid ! nat index)
       (filter (\<lambda>index. 0 \<le> index \<and> index < int (length grid)) payline)"

text \<open>
  \<^verbatim>\<open>PayTable::CountConsecutiveSymbols\<close>: the loop over \<^verbatim>\<open>symbols[1..]\<close> carries
  \<^verbatim>\<open>first_symbol\<close> and \<^verbatim>\<open>count\<close>; the wild symbol is the literal 101.
\<close>

fun count_loop :: "int \<Rightarrow> int \<Rightarrow> int list \<Rightarrow> int" where
  "count_loop first_symbol count [] = count"
| "count_loop first_symbol count (current_symbol # rest) =
     (if current_symbol = first_symbol \<or> current_symbol = 101
        then count_loop first_symbol (count + 1) rest
      else if first_symbol = 101
        then count_loop current_symbol (count + 1) rest
      else count)"

definition CountConsecutiveSymbols :: "int list \<Rightarrow> int" where
  "CountConsecutiveSymbols symbols =
     (case symbols of [] \<Rightarrow> 0 | s0 # rest \<Rightarrow> count_loop s0 1 rest)"

text \<open>
  The base-symbol loop of \<^verbatim>\<open>PayTable::CalculatePaylineWin\<close>: the key starts as
  \<^verbatim>\<open>to_string(symbols[0])\<close> and is replaced by the first symbol different from 101.
\<close>

fun base_symbol_loop :: "string \<Rightarrow> int list \<Rightarrow> string" where
  "base_symbol_loop base [] = base"
| "base_symbol_loop base (symbol # rest) =
     (if symbol \<noteq> 101 then to_string symbol else base_symbol_loop base rest)"

definition base_symbol :: "int list \<Rightarrow> string" where
  "base_symbol symbols = base_symbol_loop (to_string (hd symbols)) symbols"

text \<open>\<^verbatim>\<open>PayTable::GetPayout\<close>: a missing row or an index outside the row gives 0.\<close>

definition GetPayout :: "PayTable \<Rightarrow> string \<Rightarrow> int \<Rightarrow> real" where
  "GetPayout pt symbol count =
     (case pay_table' pt symbol of
        None \<Rightarrow> 0
      | Some payouts \<Rightarrow>
          (let index = count - 3
           in if 0 \<le> index \<and> index < int (length payouts) then payouts ! nat index
              else 0))"

definition CalculatePaylineWin :: "PayTable \<Rightarrow> SpinGrid \<Rightarrow> PaylineIndices \<Rightarrow> real \<Rightarrow> real" where
  "CalculatePaylineWin pt grid payline bet_amount =
     (let symbols = GetPaylineSymbols grid payline
      in if symbols = [] then 0
         else (let consecutive_count = CountConsecutiveSymbols symbols
               in if consecutive_count < 3 then 0
                  else GetPayout pt (base_symbol symbols) consecutive_count * bet_amount))"

definition CalculateTotalWin :: "PayTable \<Rightarrow> SpinGrid \<Rightarrow> real \<Rightarrow> int \<Rightarrow> real" where
  "CalculateTotalWin pt grid bet_amount active_lines =
     (let lines_to_check = min active_lines (int (length (paylines' pt)))
      in foldl (\<lambda>total_win payline. total_win + CalculatePaylineWin pt grid payline bet_amount)
           0 (take (nat lines_to_check) (paylines' pt)))"

section \<open>Wild-aware counting of the slot machine (machines/slot_machine.cpp)\<close>

text \<open>
  \<^verbatim>\<open>SlotMachine::IsWildSymbol\<close> and \<^verbatim>\<open>SlotMachine::CountConsecutiveSymbols\<close> consult the
  configured wild symbols. \<^verbatim>\<open>SlotMachine::Spin\<close> never calls them: the win is computed by
  \<^verbatim>\<open>PayTable::CalculateTotalWin\<close> alone.
\<close>

definition IsWildSymbol :: "int list \<Rightarrow> int \<Rightarrow> bool" where
  "IsWildSymbol wild_symbols symbol = (symbol \<in> set wild_symbols)"

fun SlotMachine_count_loop :: "int list \<Rightarrow> int \<Rightarrow> int \<Rightarrow> int list \<Rightarrow> int" where
  "SlotMachine_count_loop wild first_symbol count [] = count"
| "SlotMachine_count_loop wild first_symbol count (current_symbol # rest) =
     (if current_symbol = first_symbol \<or> IsWildSymbol wild current_symbol
        then SlotMachine_count_loop wild first_symbol (count + 1) rest
      else if IsWildSymbol wild first_symbol
        then SlotMachine_count_loop wild current_symbol (count + 1) rest
      else count)"

definition SlotMachine_CountConsecutiveSymbols :: "int list \<Rightarrow> int list \<Rightarrow> int" where
  "SlotMachine_CountConsecutiveSymbols wild symbols =
     (case symbols of [] \<Rightarrow> 0 | s0 # rest \<Rightarrow> SlotMachine_count_loop wild s0 1 rest)"

section \<open>The run-length contract of the specification\<close>

text \<open>
  The specification's wording, kept apart from the code: the anchor is the first symbol
  that is not wild; the run extends from the first symbol while a symbol equals the anchor
  or is wild; a line without any non-wild symbol is a run over the whole line.
\<close>

definition spec_anchor :: "int list \<Rightarrow> int list \<Rightarrow> int option" where
  "spec_anchor wild symbols =
     (case filter (\<lambda>s. s \<notin> set wild) symbols of [] \<Rightarrow> None | a # _ \<Rightarrow> Some a)"

definition spec_run_length :: "int list \<Rightarrow> int list \<Rightarrow> int" where
  "spec_run_length wild symbols =
     (case spec_anchor wild symbols of
        None \<Rightarrow> int (length symbols)
      | Some a \<Rightarrow> int (length (takeWhile (\<lambda>s. s = a \<or> s \<in> set wild) symbols)))"

section \<open>Reels and reel sets (machines/reel.cpp)\<close>

text \<open>
  The generator \<^verbatim>\<open>std::mt19937_64\<close> is an oracle: the sequence of raw values it will
  produce. Drawing takes the head and leaves the tail. A
  \<^verbatim>\<open>uniform_int_distribution<int>(0, n - 1)\<close> reduces the raw value to a position below
  \<open>n\<close>; every position below \<open>n\<close> is the image of some raw value.
\<close>

type_synonym rng = "nat \<Rightarrow> nat"

definition rng_next :: "rng \<Rightarrow> rng" where
  "rng_next g = (\<lambda>i. g (Suc i))"

text \<open>The divisor is the length of a reel, which is positive: the constructor of a reel
  rejects an empty strip.\<close>

definition uniform_position :: "rng \<Rightarrow> nat \<Rightarrow> nat" where
  "uniform_position g n = g 0 mod n"

text \<open>\<^verbatim>\<open>Reel::Reel\<close> rejects an empty strip.\<close>

definition Reel :: "int list \<Rightarrow> error + int list" where
  "Reel symbols =
     (if symbols = [] then Inl (InvalidArgument ''Reel cannot be empty'') else Inr symbols)"

text \<open>\<^verbatim>\<open>Reel::GetSymbolsAtPosition\<close>: \<open>count\<close> symbols read cyclically from \<open>position\<close>.\<close>

definition GetSymbolsAtPosition :: "int list \<Rightarrow> nat \<Rightarrow> int \<Rightarrow> int list" where
  "GetSymbolsAtPosition symbols position count =
     map (\<lambda>i. symbols ! ((position + i) mod length symbols)) [0..<nat count]"

record ReelSet =
  reels' :: "int list list"
  window_size' :: int

text \<open>
  \<^verbatim>\<open>ReelSet::ReelSet\<close>: the reels are taken in the order of their sorted names (the
  argument lists them in that order); an empty strip and an empty set are rejected.
\<close>

definition ReelSet :: "int list list \<Rightarrow> int \<Rightarrow> error + ReelSet" where
  "ReelSet reels_config window_size =
     (if [] \<in> set reels_config then Inl (InvalidArgument ''Reel cannot be empty'')
      else if reels_config = []
        then Inl (InvalidArgument ''ReelSet must contain at least one reel'')
      else Inr \<lparr>reels' = reels_config, window_size' = window_size\<rparr>)"

text \<open>
  \<^verbatim>\<open>ReelSet::GenerateGrid\<close>: one draw per reel, the window of each reel appended to the
  grid in reel order. \<^verbatim>\<open>grid.reserve\<close> with a negative product throws
  \<^verbatim>\<open>std::length_error\<close>.
\<close>

fun GenerateGrid_loop :: "int \<Rightarrow> int list list \<Rightarrow> rng \<Rightarrow> SpinGrid \<Rightarrow> SpinGrid \<times> rng" where
  "GenerateGrid_loop window [] g grid = (grid, g)"
| "GenerateGrid_loop window (reel # rest) g grid =
     (let position = uniform_position g (length reel);
          symbols = GetSymbolsAtPosition reel position window
      in GenerateGrid_loop window rest (rng_next g) (grid @ symbols))"

definition GenerateGrid :: "ReelSet \<Rightarrow> rng \<Rightarrow> error + SpinGrid \<times> rng" where
  "GenerateGrid rs g =
     (let num_reels = int (length (reels' rs))
      in if num_reels * window_size' rs < 0 then Inl LengthError
         else Inr (GenerateGrid_loop (window_size' rs) (reels' rs) g []))"

section \<open>Slot machine (machines/slot_machine.cpp)\<close>

record SpinResult =
  grid :: SpinGrid
  bet_amount :: real
  win_amount :: real
  profit :: real
  trigger_free_spins :: bool
  free_spins_remaining :: int
  in_free_spins :: bool
  timestamp :: real
  spin_number :: int

record MachineConfig =
  machine_id :: string
  free_spins_count :: int
  free_spins_multiplier :: real
  wild_symbols :: "int list"
  scatter_symbol :: int
  window_size :: int
  active_lines :: int
  bet_table :: "string \<rightharpoonup> BetOptions"

record SlotMachine =
  config' :: MachineConfig
  machine_pay_table :: PayTable
  reel_sets' :: "string \<rightharpoonup> ReelSet"
  machine_rng :: rng

text \<open>\<^verbatim>\<open>SlotMachine::GetBetOptions\<close> and \<^verbatim>\<open>SlotMachine::IsValidBet\<close>.\<close>

definition GetBetOptions :: "SlotMachine \<Rightarrow> string \<Rightarrow> BetOptions" where
  "GetBetOptions m currency =
     (case bet_table (config' m) currency of Some opts \<Rightarrow> opts | None \<Rightarrow> [])"

definition IsValidBet :: "SlotMachine \<Rightarrow> real \<Rightarrow> string \<Rightarrow> bool" where
  "IsValidBet m bet currency = (bet \<in> set (GetBetOptions m currency))"

text \<open>\<^verbatim>\<open>SlotMachine::GenerateSpinGrid\<close> throws when the named reel set is missing.\<close>

definition GenerateSpinGrid :: "SlotMachine \<Rightarrow> string \<Rightarrow> error + SpinGrid \<times> SlotMachine" where
  "GenerateSpinGrid m reel_set_name =
     (case reel_sets' m reel_set_name of
        None \<Rightarrow> Inl (RuntimeError (''Reel set not found: '' @ reel_set_name))
      | Some rs \<Rightarrow>
          (case GenerateGrid rs (machine_rng m) of
             Inl e \<Rightarrow> Inl e
           | Inr (g, rng1) \<Rightarrow> Inr (g, m\<lparr>machine_rng := rng1\<rparr>)))"

definition CalculateWinAmount :: "SlotMachine \<Rightarrow> SpinGrid \<Rightarrow> real \<Rightarrow> int \<Rightarrow> real" where
  "CalculateWinAmount m g bet lines = CalculateTotalWin (machine_pay_table m) g bet lines"

text \<open>
  \<^verbatim>\<open>SlotMachine::CheckFreeSpinsTrigger\<close>. \<^verbatim>\<open>grid.size() / window_size\<close> divides an
  unsigned size by the configured window: a zero window is a division by zero, a negative
  one converts to a huge unsigned value and the quotient is 0. Column \<open>col\<close> is read at
  the cells \<open>row * num_reels + col\<close>.
\<close>

definition column_has_scatter :: "MachineConfig \<Rightarrow> SpinGrid \<Rightarrow> int \<Rightarrow> int \<Rightarrow> bool" where
  "column_has_scatter cfg g num_reels col =
     list_ex (\<lambda>row. g ! nat (int row * num_reels + col) = scatter_symbol cfg)
       [0..<nat (window_size cfg)]"

definition CheckFreeSpinsTrigger :: "SlotMachine \<Rightarrow> SpinGrid \<Rightarrow> error + bool" where
  "CheckFreeSpinsTrigger m g =
     (let cfg = config' m
      in if window_size cfg = 0 then Inl DivisionByZero
         else (let num_reels = (if window_size cfg < 0 then 0
                                else int (length g) div window_size cfg);
                   scatter_columns =
                     int (length (filter (\<lambda>col. column_has_scatter cfg g num_reels (int col))
                                    [0..<nat num_reels]))
               in Inr (3 \<le> scatter_columns)))"

text \<open>
  \<^verbatim>\<open>SlotMachine::Spin\<close>. The system clock read for the timestamp is the argument
  \<open>now\<close>. The statements after the function's \<^verbatim>\<open>return\<close> in the source file are a
  stray copy of its tail and are not part of the function. In free-spin mode the source
  computes \<^verbatim>\<open>std::max(0, free_spins_remaining - 1)\<close> on \<^verbatim>\<open>int\<close>: the subtraction is the
  32-bit one, \<open>int32 (remaining - 1)\<close>.
\<close>

definition Spin ::
  "SlotMachine \<Rightarrow> real \<Rightarrow> bool \<Rightarrow> int \<Rightarrow> real \<Rightarrow> error + SpinResult \<times> SlotMachine" where
  "Spin m bet in_fs remaining now =
     (let name0 = (if in_fs then ''bonus'' else ''normal'');
          reel_set_name = (if reel_sets' m name0 = None then ''normal'' else name0)
      in case GenerateSpinGrid m reel_set_name of
           Inl e \<Rightarrow> Inl e
         | Inr (g, m1) \<Rightarrow>
             (let win = CalculateWinAmount m1 g bet (active_lines (config' m1));
                  result = \<lparr>grid = g, bet_amount = bet, win_amount = win, profit = win - bet,
                            trigger_free_spins = False, free_spins_remaining = 0,
                            in_free_spins = in_fs, timestamp = now, spin_number = 0\<rparr>
              in if \<not> in_fs then
                   (case CheckFreeSpinsTrigger m1 g of
                      Inl e \<Rightarrow> Inl e
                    | Inr trig \<Rightarrow>
                        Inr (result\<lparr>trigger_free_spins := trig,
                                free_spins_remaining :=
                                  (if trig then free_spins_count (config' m1) else 0)\<rparr>, m1))
                 else
                   (let win2 = win * free_spins_multiplier (config' m1)
                    in Inr (result\<lparr>trigger_free_spins := False,
                               free_spins_remaining := max 0 (int32 (remaining - 1)),
                               win_amount := win2,
                               profit := win2 - bet\<rparr>, m1))))"

text \<open>
  The reel columns of a grid as the assembler wrote them: column \<open>c\<close> is the window of
  reel \<open>c\<close>, the cells \<open>c * window .. c * window + window - 1\<close>.
\<close>

definition reel_column :: "SpinGrid \<Rightarrow> nat \<Rightarrow> nat \<Rightarrow> int list" where
  "reel_column g window c = take window (drop (c * window) g)"

definition scatter_reel_columns :: "int \<Rightarrow> SpinGrid \<Rightarrow> nat \<Rightarrow> nat \<Rightarrow> nat" where
  "scatter_reel_columns scatter g window num_reels =
     length (filter (\<lambda>c. scatter \<in> set (reel_column g window c)) [0..<num_reels])"

section \<open>Session records (core/types.h)\<close>

record PlayerDecision =
  decision_bet_amount :: real
  delay_time :: real
  continue_playing :: bool

text \<open>The constructor \<^verbatim>\<open>PlayerDecision(bet, delay)\<close>: continue exactly when the bet is positive.\<close>

definition make_PlayerDecision :: "real \<Rightarrow> real \<Rightarrow> PlayerDecision" where
  "make_PlayerDecision bet delay =
     \<lparr>decision_bet_amount = bet, delay_time = delay, continue_playing = (0 < bet)\<rparr>"

record SessionStats =
  session_id :: string
  stats_player_id :: string
  stats_machine_id :: string
  total_spins :: int
  total_bet :: real
  total_win :: real
  total_profit :: real
  initial_balance :: real
  final_balance :: real
  session_duration :: real
  free_spins_triggered :: int
  free_spins_played :: int
  max_win :: real
  max_loss_streak :: real
  rtp :: real

text \<open>The default constructor \<^verbatim>\<open>SessionStats()\<close>.\<close>

definition default_SessionStats :: SessionStats where
  "default_SessionStats =
     \<lparr>session_id = [], stats_player_id = [], stats_machine_id = [],
      total_spins = 0, total_bet = 0, total_win = 0, total_profit = 0,
      initial_balance = 0, final_balance = 0, session_duration = 0,
      free_spins_triggered = 0, free_spins_played = 0,
      max_win = 0, max_loss_streak = 0, rtp = 0\<rparr>"

record SessionData =
  current_balance :: real
  recent_spins :: "SpinResult list"
  stats :: SessionStats
  available_bets :: BetOptions
  data_in_free_spins :: bool
  data_free_spins_remaining :: int

section \<open>Initial balance (core/types.cpp) and the base player (players/base_player.cpp)\<close>

record BalanceDistribution =
  avg :: real
  std :: real
  dist_min :: real
  dist_max :: real

text \<open>\<^verbatim>\<open>std::clamp(v, lo, hi)\<close>.\<close>

definition clamp :: "real \<Rightarrow> real \<Rightarrow> real \<Rightarrow> real" where
  "clamp v lo hi = (if v < lo then lo else if hi < v then hi else v)"

text \<open>
  \<^verbatim>\<open>BalanceDistribution::GenerateBalance\<close>. The value drawn from
  \<^verbatim>\<open>std::normal_distribution<float>(avg, std)\<close> is the argument \<open>sample\<close>; it is only
  drawn, and only clamped, when \<open>std\<close> is positive.
\<close>

definition GenerateBalance :: "BalanceDistribution \<Rightarrow> real \<Rightarrow> real" where
  "GenerateBalance bd sample =
     (if std bd \<le> 0 then avg bd
      else clamp sample (dist_min bd) (dist_max bd))"

record PlayerConfig =
  player_id :: string
  model_version :: string
  cluster_id :: string
  config_initial_balance :: BalanceDistribution
  currency :: string

record BasePlayer =
  player_config :: PlayerConfig
  balance' :: real
  active' :: bool
  player_rng :: rng

text \<open>\<^verbatim>\<open>BasePlayer::BasePlayer\<close> and \<^verbatim>\<open>BasePlayer::Reset\<close>: both sample the balance.\<close>

definition BasePlayer :: "PlayerConfig \<Rightarrow> real \<Rightarrow> rng \<Rightarrow> BasePlayer" where
  "BasePlayer config sample g =
     \<lparr>player_config = config,
      balance' = GenerateBalance (config_initial_balance config) sample,
      active' = True, player_rng = g\<rparr>"

definition Reset :: "'a BasePlayer_scheme \<Rightarrow> real \<Rightarrow> 'a BasePlayer_scheme" where
  "Reset p sample =
     p\<lparr>balance' := GenerateBalance (config_initial_balance (player_config p)) sample,
       active' := True\<rparr>"

definition IsActive :: "'a BasePlayer_scheme \<Rightarrow> bool" where
  "IsActive p = (0 < balance' p \<and> active' p)"

definition GetBalance :: "'a BasePlayer_scheme \<Rightarrow> real" where
  "GetBalance p = balance' p"

definition GetCurrency :: "'a BasePlayer_scheme \<Rightarrow> string" where
  "GetCurrency p = currency (player_config p)"

definition UpdateBalance :: "'a BasePlayer_scheme \<Rightarrow> real \<Rightarrow> 'a BasePlayer_scheme" where
  "UpdateBalance p amount = p\<lparr>balance' := balance' p + amount\<rparr>"

text \<open>\<^verbatim>\<open>BasePlayer::IsValidBet\<close>: positive, affordable and offered.\<close>

definition BasePlayer_IsValidBet :: "'a BasePlayer_scheme \<Rightarrow> real \<Rightarrow> SessionData \<Rightarrow> bool" where
  "BasePlayer_IsValidBet p bet sd =
     (if bet \<le> 0 then False
      else if bet > balance' p then False
      else bet \<in> set (available_bets sd))"

text \<open>
  \<^verbatim>\<open>BasePlayer::GetRandomBet\<close>: 1 when no bet is offered, 0 when none is affordable,
  otherwise a uniformly drawn affordable bet. Only the last case draws from the generator.
\<close>

definition GetRandomBet :: "'a BasePlayer_scheme \<Rightarrow> SessionData \<Rightarrow> real \<times> 'a BasePlayer_scheme" where
  "GetRandomBet p sd =
     (if available_bets sd = [] then (1, p)
      else (let affordable_bets = filter (\<lambda>bet. bet \<le> balance' p) (available_bets sd)
            in if affordable_bets = [] then (0, p)
               else (affordable_bets ! uniform_position (player_rng p) (length affordable_bets),
                     p\<lparr>player_rng := rng_next (player_rng p)\<rparr>)))"

text \<open>
  \<^verbatim>\<open>BasePlayer::GetRandomDelay\<close>: a \<^verbatim>\<open>uniform_real_distribution\<close> draw, the raw 64-bit
  value scaled into the interval.
\<close>

definition GetRandomDelay :: "'a BasePlayer_scheme \<Rightarrow> real \<Rightarrow> real \<Rightarrow> real \<times> 'a BasePlayer_scheme" where
  "GetRandomDelay p min_delay max_delay =
     (min_delay + (max_delay - min_delay) * (real (player_rng p 0 mod 2 ^ 64) / 2 ^ 64),
      p\<lparr>player_rng := rng_next (player_rng p)\<rparr>)"

section \<open>The v1 player (players/models/v1)\<close>

text \<open>
  A loaded model (\<^verbatim>\<open>ModelLoader::Predict\<close>) is an opaque function from the input vector
  to an output vector, or to an exception. A \<^verbatim>\<open>unique_ptr\<close> that may be null is an
  \<open>option\<close>.
\<close>

type_synonym ModelLoader = "real list \<Rightarrow> error + real list"

record V1ModelLoader =
  models_loaded' :: bool
  betting_model' :: "ModelLoader option"
  termination_model' :: "ModelLoader option"
  isolation_forest' :: "ModelLoader option"

text \<open>\<^verbatim>\<open>V1ModelLoader::PredictBetAmount\<close>: every failure path answers 1.\<close>

definition PredictBetAmount :: "V1ModelLoader \<Rightarrow> real list \<Rightarrow> real" where
  "PredictBetAmount ml betting_input =
     (case (models_loaded' ml, betting_model' ml) of
        (True, Some model) \<Rightarrow>
          (case model betting_input of
             Inl e \<Rightarrow> 1
           | Inr output \<Rightarrow>
               (if output = [] then 1
                else (let predicted_bet = output ! 0
                      in if predicted_bet \<le> 0 then 1 else predicted_bet)))
      | _ \<Rightarrow> 1)"

text \<open>
  \<^verbatim>\<open>V1ModelLoader::PredictTermination\<close>: the first output of the termination model is
  thresholded at 0.5; an isolation-forest output that is empty or not positive overrides
  the answer to \<open>True\<close>; every failure path answers \<open>False\<close>.
\<close>

definition PredictTermination :: "V1ModelLoader \<Rightarrow> real list \<Rightarrow> bool" where
  "PredictTermination ml termination_input =
     (case (models_loaded' ml, termination_model' ml, isolation_forest' ml) of
        (True, Some dqn, Some forest) \<Rightarrow>
          (case dqn termination_input of
             Inl e \<Rightarrow> False
           | Inr dqn_output \<Rightarrow>
               (if dqn_output = [] then False
                else (let dqn_decision = (dqn_output ! 0 > 0.5)
                      in case forest termination_input of
                           Inl e \<Rightarrow> False
                         | Inr isolation_output \<Rightarrow>
                             (let is_normal =
                                    (isolation_output \<noteq> [] \<and> isolation_output ! 0 > 0)
                              in if \<not> is_normal then True else dqn_decision))))
      | _ \<Rightarrow> False)"

text \<open>\<^verbatim>\<open>V1DataProcessor::CalculateStreak\<close>: signed length of the latest win or loss run.\<close>

fun streak_loop :: "bool \<Rightarrow> real \<Rightarrow> SpinResult list \<Rightarrow> real" where
  "streak_loop winning streak [] = streak"
| "streak_loop winning streak (spin # rest) =
     (if (profit spin > 0) = winning
        then streak_loop winning (streak + (if winning then 1 else - 1)) rest
      else streak)"

definition CalculateStreak :: "SessionData \<Rightarrow> real" where
  "CalculateStreak sd =
     (if recent_spins sd = [] then 0
      else streak_loop (profit (last (recent_spins sd)) > 0) 0 (rev (recent_spins sd)))"

definition CalculateDeltaProfit :: "SessionData \<Rightarrow> real" where
  "CalculateDeltaProfit sd =
     (if length (recent_spins sd) < 2 then 0
      else profit (last (recent_spins sd))
           - profit (recent_spins sd ! (length (recent_spins sd) - 2)))"

text \<open>\<^verbatim>\<open>V1DataProcessor::PrepareBettingInput\<close>: the 12 features of the bet model.\<close>

definition PrepareBettingInput :: "SessionData \<Rightarrow> real list" where
  "PrepareBettingInput sd =
     (let current_profit = (if recent_spins sd = [] then 0 else profit (last (recent_spins sd)));
          prev_bet = (if recent_spins sd = [] then 0 else bet_amount (last (recent_spins sd)));
          prev_profit = 0
      in [current_balance sd, current_profit, CalculateStreak sd, 1, current_balance sd, 1,
          CalculateDeltaProfit sd, 0, prev_bet, current_balance sd, prev_profit, 1])"

text \<open>\<^verbatim>\<open>V1DataProcessor::PrepareTerminationInput\<close>: the 8 features of the termination model.\<close>

definition PrepareTerminationInput :: "SessionData \<Rightarrow> real list" where
  "PrepareTerminationInput sd =
     (let current_bet = (if recent_spins sd = [] then 0 else bet_amount (last (recent_spins sd)));
          prev_bet = (if recent_spins sd \<noteq> [] \<and> length (recent_spins sd) > 1
                      then bet_amount (recent_spins sd ! (length (recent_spins sd) - 2))
                      else 0);
          streak = CalculateStreak sd
      in [current_balance sd, total_profit (stats sd), current_bet, streak, max 0 streak,
          prev_bet, current_balance sd, total_profit (stats sd)])"

record V1Player = BasePlayer +
  model_loader' :: V1ModelLoader
  is_first_bet' :: bool
  first_bet_amount' :: real

text \<open>\<^verbatim>\<open>V1Player::ShouldTerminate\<close>. Its only call site, at the head of
  \<^verbatim>\<open>V1Player::MakeDecision\<close>, is commented out in the source.\<close>

definition ShouldTerminate :: "V1Player \<Rightarrow> SessionData \<Rightarrow> bool" where
  "ShouldTerminate p sd =
     PredictTermination (model_loader' p) (PrepareTerminationInput sd)"

definition DecideBetAmount :: "V1Player \<Rightarrow> SessionData \<Rightarrow> real \<times> V1Player" where
  "DecideBetAmount p sd =
     (let predicted_bet = PredictBetAmount (model_loader' p) (PrepareBettingInput sd)
      in if \<not> BasePlayer_IsValidBet p predicted_bet sd then GetRandomBet p sd
         else (predicted_bet, p))"

definition DecideDelayTime :: "V1Player \<Rightarrow> SessionData \<Rightarrow> real \<times> V1Player" where
  "DecideDelayTime p sd = GetRandomDelay p 0.1 1.0"

text \<open>
  \<^verbatim>\<open>V1Player::MakeDecision\<close>. The \<^verbatim>\<open>try\<close> block has no throwing callee: the model
  loader catches the exceptions of its models and the helpers of the base player raise
  none, so the \<^verbatim>\<open>catch\<close> branch is never entered.
\<close>

definition V1Player_MakeDecision ::
  "V1Player \<Rightarrow> string \<Rightarrow> SessionData \<Rightarrow> PlayerDecision \<times> V1Player" where
  "V1Player_MakeDecision p machine sd =
     (let (bet, p1) = (if is_first_bet' p
                       then (first_bet_amount' p, p\<lparr>is_first_bet' := False\<rparr>)
                       else DecideBetAmount p sd);
          (delay, p2) = DecideDelayTime p1 sd
      in (make_PlayerDecision bet delay, p2))"

section \<open>The random player (players/models/random/random_player.cpp)\<close>

record RandomPlayer = BasePlayer +
  consecutive_losses' :: int
  session_spent' :: real
  min_delay' :: real
  max_delay' :: real
  end_probability' :: real
  max_consecutive_losses' :: int
  session_budget' :: real
  max_spins_per_session' :: int

text \<open>
  \<^verbatim>\<open>RandomPlayer::ShouldEndSession\<close>: the draw of the end probability comes first and
  advances the generator whatever the answer.
\<close>

definition ShouldEndSession :: "RandomPlayer \<Rightarrow> SessionData \<Rightarrow> bool \<times> RandomPlayer" where
  "ShouldEndSession p sd =
     (let draw = real (player_rng p 0 mod 2 ^ 64) / 2 ^ 64;
          p1 = p\<lparr>player_rng := rng_next (player_rng p)\<rparr>
      in if draw < end_probability' p then (True, p1)
         else if consecutive_losses' p \<ge> max_consecutive_losses' p then (True, p1)
         else if session_spent' p \<ge> session_budget' p then (True, p1)
         else if total_spins (stats sd) \<ge> max_spins_per_session' p then (True, p1)
         else if current_balance sd \<le> 0 then (True, p1)
         else (False, p1))"

text \<open>\<^verbatim>\<open>RandomPlayer::MakeDecision\<close>.\<close>

definition RandomPlayer_MakeDecision ::
  "RandomPlayer \<Rightarrow> string \<Rightarrow> SessionData \<Rightarrow> PlayerDecision \<times> RandomPlayer" where
  "RandomPlayer_MakeDecision p machine sd =
     (let (should_end, p1) = ShouldEndSession p sd
      in if should_end then (make_PlayerDecision 0 0, p1)
         else (let (bet, p2) = GetRandomBet p1 sd
               in if bet \<le> 0 then (make_PlayerDecision 0 0, p2)
                  else (let (delay, p3) = GetRandomDelay p2 (min_delay' p2) (max_delay' p2);
                            p4 = p3\<lparr>session_spent' := session_spent' p3 + bet\<rparr>;
                            p5 = (if recent_spins sd \<noteq> [] then
                                    (if profit (last (recent_spins sd)) \<le> 0
                                     then p4\<lparr>consecutive_losses' := consecutive_losses' p4 + 1\<rparr>
                                     else p4\<lparr>consecutive_losses' := 0\<rparr>)
                                  else p4)
                        in (make_PlayerDecision bet delay, p5))))"

section \<open>Session controller (core/session_controller.cpp)\<close>

text \<open>
  The clocks are oracles indexed by the number of spins already played in the session:
  \<open>elapsed_seconds n\<close> is the whole number of seconds since the session start read by
  the limit check before spin \<open>n\<close>, \<open>spin_clock n\<close> the system time stamped on spin
  \<open>n\<close>, \<open>end_millis\<close> the milliseconds elapsed when the loop is left.
\<close>

record Clock =
  elapsed_seconds :: "nat \<Rightarrow> int"
  spin_clock :: "nat \<Rightarrow> real"
  end_millis :: int

text \<open>
  The controller owns a player derived from \<^verbatim>\<open>BasePlayer\<close> and a machine. The virtual
  \<^verbatim>\<open>MakeDecision\<close> of the player is a parameter of the session functions.
\<close>

record 'a SessionController =
  player' :: "'a BasePlayer_scheme"
  machine' :: SlotMachine
  spin_history' :: "SpinResult list"
  in_free_spins' :: bool
  free_spins_remaining' :: int

type_synonym 'a decide =
  "'a BasePlayer_scheme \<Rightarrow> string \<Rightarrow> SessionData \<Rightarrow> PlayerDecision \<times> 'a BasePlayer_scheme"

text \<open>\<^verbatim>\<open>SessionController::PrepareSessionData\<close>.\<close>

definition accumulate_spin :: "SessionStats \<Rightarrow> SpinResult \<Rightarrow> SessionStats" where
  "accumulate_spin st spin =
     st\<lparr>total_bet := total_bet st + bet_amount spin,
        total_win := total_win st + win_amount spin,
        total_profit := total_profit st + profit spin,
        free_spins_triggered :=
          (if trigger_free_spins spin then free_spins_triggered st + 1
           else free_spins_triggered st),
        free_spins_played :=
          (if in_free_spins spin then free_spins_played st + 1 else free_spins_played st),
        max_win := max (max_win st) (win_amount spin)\<rparr>"

definition PrepareSessionData :: "'a SessionController \<Rightarrow> SessionData" where
  "PrepareSessionData c =
     (let history_size = min (length (spin_history' c)) 10
      in \<lparr>current_balance = GetBalance (player' c),
          recent_spins = drop (length (spin_history' c) - history_size) (spin_history' c),
          stats = foldl accumulate_spin
                    (default_SessionStats\<lparr>total_spins := int (length (spin_history' c))\<rparr>)
                    (spin_history' c),
          available_bets = GetBetOptions (machine' c) (GetCurrency (player' c)),
          data_in_free_spins = in_free_spins' c,
          data_free_spins_remaining = free_spins_remaining' c\<rparr>)"

text \<open>\<^verbatim>\<open>SessionController::UpdateSessionStats\<close>.\<close>

definition UpdateSessionStats :: "SessionStats \<Rightarrow> SpinResult \<Rightarrow> SessionStats" where
  "UpdateSessionStats st spin_result =
     (let st1 = st\<lparr>total_spins := total_spins st + 1,
                   total_bet := total_bet st + bet_amount spin_result,
                   total_win := total_win st + win_amount spin_result,
                   total_profit := total_profit st + profit spin_result\<rparr>;
          st2 = (if trigger_free_spins spin_result
                 then st1\<lparr>free_spins_triggered := free_spins_triggered st1 + 1\<rparr> else st1);
          st3 = (if in_free_spins spin_result
                 then st2\<lparr>free_spins_played := free_spins_played st2 + 1\<rparr> else st2);
          st4 = st3\<lparr>max_win := max (max_win st3) (win_amount spin_result)\<rparr>
      in if profit spin_result < 0
         then st4\<lparr>max_loss_streak := min (max_loss_streak st4) (profit spin_result)\<rparr>
         else st4)"

text \<open>
  \<^verbatim>\<open>SessionController::ExecuteSpin\<close>. The bet is debited before the machine spins, so
  an exception of the machine leaves the debit in place; the error result carries the
  controller in that state.
\<close>

definition ExecuteSpin ::
  "Clock \<Rightarrow> 'a SessionController \<Rightarrow> real \<Rightarrow> SessionStats
     \<Rightarrow> error \<times> 'a SessionController + 'a SessionController \<times> SessionStats" where
  "ExecuteSpin clock c bet st =
     (let c1 = c\<lparr>player' := UpdateBalance (player' c) (- bet)\<rparr>
      in case Spin (machine' c1) bet (in_free_spins' c1) (free_spins_remaining' c1)
                (spin_clock clock (length (spin_history' c1))) of
           Inl e \<Rightarrow> Inl (e, c1)
         | Inr (spin_result, m1) \<Rightarrow>
             (let c2 = c1\<lparr>machine' := m1,
                          player' := UpdateBalance (player' c1) (win_amount spin_result)\<rparr>;
                  c3 = (if trigger_free_spins spin_result \<and> \<not> in_free_spins' c2
                        then c2\<lparr>in_free_spins' := True,
                                free_spins_remaining' := free_spins_remaining spin_result\<rparr>
                        else if in_free_spins' c2
                        then (let c2a = c2\<lparr>free_spins_remaining' :=
                                             free_spins_remaining spin_result\<rparr>
                              in if free_spins_remaining' c2a \<le> 0
                                 then c2a\<lparr>in_free_spins' := False\<rparr> else c2a)
                        else c2);
                  numbered = spin_result\<lparr>spin_number := int (length (spin_history' c3)) + 1\<rparr>;
                  c4 = c3\<lparr>spin_history' := spin_history' c3 @ [numbered]\<rparr>
              in Inr (c4, UpdateSessionStats st numbered)))"

text \<open>\<^verbatim>\<open>SessionController::CheckSessionLimits\<close>.\<close>

definition CheckSessionLimits ::
  "Clock \<Rightarrow> 'a SessionController \<Rightarrow> SessionStats \<Rightarrow> int \<Rightarrow> real \<Rightarrow> bool" where
  "CheckSessionLimits clock c st max_spins max_duration =
     (if total_spins st \<ge> max_spins then True
      else if real_of_int (elapsed_seconds clock (length (spin_history' c))) \<ge> max_duration
        then True
      else False)"

text \<open>
  One pass through the body of the \<^verbatim>\<open>while\<close> loop of
  \<^verbatim>\<open>SessionController::RunSession\<close>, from the loop condition to the end of the body:
  \<open>Inl\<close> when the loop is left (by its condition, by a \<^verbatim>\<open>break\<close>, or by an exception
  caught after the loop), \<open>Inr\<close> when a spin was executed and the loop goes round again.
  The sleep and the progress log have no effect on the state. The error
  \<open>DivisionByZero\<close> of \<^verbatim>\<open>CheckFreeSpinsTrigger\<close> (a configured window of zero) takes the
  same branch as the exceptions here, although in the program it is a trap that ends the
  process and no session record is returned: on such a machine the model returns a record
  that the program never produces. The termination of the loop is therefore stated below
  for machines whose configured window is not zero.
\<close>

definition RunSession_body ::
  "'a decide \<Rightarrow> Clock \<Rightarrow> int \<Rightarrow> real \<Rightarrow> 'a SessionController \<times> SessionStats
     \<Rightarrow> 'a SessionController \<times> SessionStats + 'a SessionController \<times> SessionStats" where
  "RunSession_body MakeDecision clock max_spins max_duration s =
     (case s of (c, st) \<Rightarrow>
        if IsActive (player' c) \<and> \<not> CheckSessionLimits clock c st max_spins max_duration then
          (let session_data = PrepareSessionData c;
               (decision, p1) =
                 MakeDecision (player' c) (machine_id (config' (machine' c))) session_data;
               c1 = c\<lparr>player' := p1\<rparr>
           in if \<not> continue_playing decision \<or> decision_bet_amount decision \<le> 0
                then Inl (c1, st)
              else if \<not> IsValidBet (machine' c1) (decision_bet_amount decision)
                          (GetCurrency (player' c1))
                then Inl (c1, st)
              else if decision_bet_amount decision > GetBalance (player' c1)
                then Inl (c1, st)
              else (case ExecuteSpin clock c1 (decision_bet_amount decision) st of
                      Inl (e, c2) \<Rightarrow> Inl (c2, st)
                    | Inr (c2, st2) \<Rightarrow> Inr (c2, st2)))
        else Inl (c, st))"

function RunSession_loop ::
  "'a decide \<Rightarrow> Clock \<Rightarrow> int \<Rightarrow> real \<Rightarrow> 'a SessionController \<times> SessionStats
     \<Rightarrow> 'a SessionController \<times> SessionStats" where
  "RunSession_loop MakeDecision clock max_spins max_duration s =
     (case RunSession_body MakeDecision clock max_spins max_duration s of
        Inl s1 \<Rightarrow> s1
      | Inr s1 \<Rightarrow> RunSession_loop MakeDecision clock max_spins max_duration s1)"
  by pat_completeness auto

termination RunSession_loop
proof (relation "measure (\<lambda>(MakeDecision, clock, max_spins, max_duration, s).
                    nat (max_spins - total_spins (snd s)))", goal_cases)
  case 1
  show ?case by simp
next
  case (2 MakeDecision clock max_spins max_duration s s1)
  obtain c st where s: "s = (c, st)" by (cases s)
  obtain c2 st2 where s1: "s1 = (c2, st2)" by (cases s1)
  from 2 s s1 have "total_spins st < max_spins \<and> total_spins st2 = total_spins st + 1"
    by (auto simp: RunSession_body_def CheckSessionLimits_def ExecuteSpin_def
        UpdateSessionStats_def Let_def split: if_splits prod.splits sum.splits)
  with s s1 show ?case by simp
qed

declare RunSession_loop.simps [simp del]

text \<open>
  \<^verbatim>\<open>SessionController::RunSession\<close>. \<^verbatim>\<open>spin_history_.reserve(std::min(max_spins, 10000))\<close>
  runs before the \<^verbatim>\<open>try\<close> block and throws \<^verbatim>\<open>std::length_error\<close> on a negative
  argument. The result pairs the session record with the controller as the session left
  it.
\<close>

definition RunSession ::
  "'a decide \<Rightarrow> Clock \<Rightarrow> 'a SessionController \<Rightarrow> string \<Rightarrow> int \<Rightarrow> real
     \<Rightarrow> error + SessionStats \<times> 'a SessionController" where
  "RunSession MakeDecision clock c sid max_spins max_duration =
     (if min max_spins 10000 < 0 then Inl LengthError
      else (let st0 = default_SessionStats
                        \<lparr>session_id := sid,
                         stats_player_id := player_id (player_config (player' c)),
                         stats_machine_id := machine_id (config' (machine' c)),
                         initial_balance := GetBalance (player' c),
                         final_balance := GetBalance (player' c)\<rparr>;
                c0 = c\<lparr>spin_history' := []\<rparr>;
                (c1, st1) = RunSession_loop MakeDecision clock max_spins max_duration (c0, st0);
                st2 = st1\<lparr>session_duration := real_of_int (end_millis clock) / 1000,
                          final_balance := GetBalance (player' c1),
                          total_profit := GetBalance (player' c1) - initial_balance st1\<rparr>;
                st3 = (if total_bet st2 > 0
                       then st2\<lparr>rtp := total_win st2 / total_bet st2\<rparr> else st2)
            in Inr (st3, c1)))"

section \<open>Work-stealing thread pool (core/thread_pool.cpp)\<close>

text \<open>
  A task is an opaque closure, identified by a number; running it is recorded in the
  log \<open>executed\<close>. The pool is shared state: the atomic flag \<^verbatim>\<open>shutdown_\<close>, one
  mutex-protected deque per worker, and for each worker whether it is still inside the
  loop of \<^verbatim>\<open>WorkerThread\<close>.
\<close>

type_synonym task = nat

datatype worker_status = InLoop | Exited

record ThreadPool =
  thread_count' :: nat
  shutdown' :: bool
  queues' :: "task list list"
  workers' :: "worker_status list"
  total_tasks' :: int
  executed :: "task list"

text \<open>\<^verbatim>\<open>ThreadPool::ThreadPool\<close>; \<open>hardware\<close> is \<^verbatim>\<open>std::thread::hardware_concurrency()\<close>.\<close>

definition ThreadPool :: "int \<Rightarrow> nat \<Rightarrow> ThreadPool" where
  "ThreadPool thread_count hardware =
     (let n = (if thread_count \<le> 0 then (if hardware = 0 then 4 else hardware)
               else nat thread_count)
      in \<lparr>thread_count' = n, shutdown' = False, queues' = replicate n [],
          workers' = replicate n InLoop, total_tasks' = 0, executed = []\<rparr>)"

text \<open>\<^verbatim>\<open>WorkQueue::PopBack\<close> and \<^verbatim>\<open>WorkQueue::PopFront\<close>.\<close>

definition PopBack :: "task list \<Rightarrow> (task \<times> task list) option" where
  "PopBack deque = (if deque = [] then None else Some (last deque, butlast deque))"

definition PopFront :: "task list \<Rightarrow> (task \<times> task list) option" where
  "PopFront deque = (case deque of [] \<Rightarrow> None | item # rest \<Rightarrow> Some (item, rest))"

definition run_task :: "ThreadPool \<Rightarrow> task \<Rightarrow> ThreadPool" where
  "run_task pool t = pool\<lparr>total_tasks' := total_tasks' pool + 1, executed := executed pool @ [t]\<rparr>"

definition ExecuteLocalTask :: "ThreadPool \<Rightarrow> nat \<Rightarrow> bool \<times> ThreadPool" where
  "ExecuteLocalTask pool thread_id =
     (case PopBack (queues' pool ! thread_id) of
        Some (t, rest) \<Rightarrow>
          (True, run_task (pool\<lparr>queues' := (queues' pool)[thread_id := rest]\<rparr>) t)
      | None \<Rightarrow> (False, pool))"

fun StealTask_loop :: "ThreadPool \<Rightarrow> nat \<Rightarrow> nat list \<Rightarrow> bool \<times> ThreadPool" where
  "StealTask_loop pool thread_id [] = (False, pool)"
| "StealTask_loop pool thread_id (attempts # later) =
     (let target = (thread_id + 1 + attempts) mod thread_count' pool
      in case PopFront (queues' pool ! target) of
           Some (t, rest) \<Rightarrow>
             (True, run_task (pool\<lparr>queues' := (queues' pool)[target := rest]\<rparr>) t)
         | None \<Rightarrow> StealTask_loop pool thread_id later)"

definition StealTask :: "ThreadPool \<Rightarrow> nat \<Rightarrow> bool \<times> ThreadPool" where
  "StealTask pool thread_id = StealTask_loop pool thread_id [0..<thread_count' pool - 1]"

text \<open>
  One pass of worker \<open>thread_id\<close> through the loop \<^verbatim>\<open>while (!shutdown_)\<close> of
  \<^verbatim>\<open>ThreadPool::WorkerThread\<close>: the test of the flag, then a local task, else a stolen
  one, else the timed wait (which changes nothing).
\<close>

definition WorkerThread_pass :: "ThreadPool \<Rightarrow> nat \<Rightarrow> ThreadPool" where
  "WorkerThread_pass pool thread_id =
     (if shutdown' pool then pool\<lparr>workers' := (workers' pool)[thread_id := Exited]\<rparr>
      else (case ExecuteLocalTask pool thread_id of
              (True, pool1) \<Rightarrow> pool1
            | (False, pool1) \<Rightarrow>
                (case StealTask pool1 thread_id of
                   (True, pool2) \<Rightarrow> pool2
                 | (False, pool2) \<Rightarrow> pool2)))"

text \<open>
  What can happen to the pool, one atomic event at a time: a worker still in its loop
  makes a pass, a client submits a task to a deque (\<^verbatim>\<open>ThreadPool::Submit\<close> drops it
  once the flag is set), or \<^verbatim>\<open>ThreadPool::Shutdown\<close> sets the flag and broadcasts.
\<close>

datatype pool_event = WorkerPass nat | Submit task nat | Shutdown

definition pool_step :: "ThreadPool \<Rightarrow> pool_event \<Rightarrow> ThreadPool" where
  "pool_step pool ev =
     (case ev of
        WorkerPass thread_id \<Rightarrow>
          (if thread_id < thread_count' pool \<and> workers' pool ! thread_id = InLoop
           then WorkerThread_pass pool thread_id else pool)
      | Submit t target \<Rightarrow>
          (if shutdown' pool \<or> \<not> target < thread_count' pool then pool
           else pool\<lparr>queues' := (queues' pool)[target := queues' pool ! target @ [t]]\<rparr>)
      | Shutdown \<Rightarrow> pool\<lparr>shutdown' := True\<rparr>)"

definition pool_run :: "ThreadPool \<Rightarrow> pool_event list \<Rightarrow> ThreadPool" where
  "pool_run pool events = foldl pool_step pool events"

section \<open>The stop conditions of a session, as the specification lists them\<close>

text \<open>
  A machine on which \<^verbatim>\<open>Spin\<close> always returns: it has a normal reel set, no reel set
  has a negative window, and the configured window is not zero. Nothing in the loader or
  in the constructors enforces this.
\<close>

definition machine_ready :: "SlotMachine \<Rightarrow> bool" where
  "machine_ready m =
     ((case reel_sets' m ''normal'' of None \<Rightarrow> False | Some rs \<Rightarrow> 0 \<le> window_size' rs) \<and>
      (case reel_sets' m ''bonus'' of None \<Rightarrow> True | Some rs \<Rightarrow> 0 \<le> window_size' rs) \<and>
      window_size (config' m) \<noteq> 0)"

text \<open>
  A decision function that leaves the account of the base player alone, as both
  \<^verbatim>\<open>MakeDecision\<close> overrides of the repository do: the balance and the active flag are
  written by the base class only.
\<close>

definition keeps_account :: "'a decide \<Rightarrow> bool" where
  "keeps_account MakeDecision =
     (\<forall>p machine sd. balance' (snd (MakeDecision p machine sd)) = balance' p \<and>
                     active' (snd (MakeDecision p machine sd)) = active' p)"

text \<open>The decision the player returns on the observation of the current state.\<close>

definition decision_at ::
  "'a decide \<Rightarrow> 'a SessionController \<Rightarrow> PlayerDecision \<times> 'a BasePlayer_scheme" where
  "decision_at MakeDecision c =
     MakeDecision (player' c) (machine_id (config' (machine' c))) (PrepareSessionData c)"

text \<open>
  The termination conditions of the specification, before a spin: the decision says stop,
  or its bet is not positive, or is not offered for the player's currency, or exceeds the
  balance, or a cap (spins, duration) is reached.
\<close>

definition stop_condition ::
  "'a decide \<Rightarrow> Clock \<Rightarrow> int \<Rightarrow> real \<Rightarrow> 'a SessionController \<times> SessionStats \<Rightarrow> bool" where
  "stop_condition MakeDecision clock max_spins max_duration s =
     (let decision = fst (decision_at MakeDecision (fst s));
          p1 = snd (decision_at MakeDecision (fst s))
      in \<not> continue_playing decision \<or>
         decision_bet_amount decision \<le> 0 \<or>
         decision_bet_amount decision \<notin> set (GetBetOptions (machine' (fst s)) (GetCurrency p1)) \<or>
         decision_bet_amount decision > GetBalance p1 \<or>
         total_spins (snd s) \<ge> max_spins \<or>
         real_of_int (elapsed_seconds clock (length (spin_history' (fst s)))) \<ge> max_duration)"

text \<open>
  The spin that the loop body would execute on the current state raises a C++ exception
  (\<^verbatim>\<open>std::runtime_error\<close> for a missing reel set, \<^verbatim>\<open>std::length_error\<close> for a negative
  reel window), which \<^verbatim>\<open>RunSession\<close> catches after the loop. The division by zero at a
  zero window is a trap of the processor and not an exception.
\<close>

definition spin_throws ::
  "'a decide \<Rightarrow> Clock \<Rightarrow> 'a SessionController \<times> SessionStats \<Rightarrow> bool" where
  "spin_throws MakeDecision clock s =
     (let c = fst s;
          decision = fst (decision_at MakeDecision c)
      in case Spin (machine' c) (decision_bet_amount decision) (in_free_spins' c)
                (free_spins_remaining' c) (spin_clock clock (length (spin_history' c))) of
           Inl e \<Rightarrow> e \<noteq> DivisionByZero
         | Inr r \<Rightarrow> False)"

text \<open>The state after \<open>n\<close> further passes of the loop body that executed a spin.\<close>

fun after_spins ::
  "'a decide \<Rightarrow> Clock \<Rightarrow> int \<Rightarrow> real \<Rightarrow> nat \<Rightarrow> 'a SessionController \<times> SessionStats
     \<Rightarrow> 'a SessionController \<times> SessionStats" where
  "after_spins MakeDecision clock max_spins max_duration 0 s = s"
| "after_spins MakeDecision clock max_spins max_duration (Suc n) s =
     (case RunSession_body MakeDecision clock max_spins max_duration s of
        Inl s1 \<Rightarrow> s
      | Inr s1 \<Rightarrow> after_spins MakeDecision clock max_spins max_duration n s1)"

section \<open>Example configurations\<close>

text \<open>A five-reel machine with scatter 20 and one pay row, used by the examples below.\<close>

definition example_config :: MachineConfig where
  "example_config =
     \<lparr>machine_id = ''m1'', free_spins_count = 10, free_spins_multiplier = 2,
      wild_symbols = [101], scatter_symbol = 20, window_size = 3, active_lines = 1,
      bet_table = [''USD'' \<mapsto> [1, 2, 5]]\<rparr>"

definition example_pay_table :: PayTable where
  "example_pay_table =
     \<lparr>pay_table' = [''1'' \<mapsto> [1, 2, 5]], paylines' = [[0, 1, 2, 3, 4]]\<rparr>"

text \<open>A payline over six reels, all showing symbol 1.\<close>

definition six_reel_line :: PaylineIndices where
  "six_reel_line = [0, 1, 2, 3, 4, 5]"

definition six_of_a_kind :: SpinGrid where
  "six_of_a_kind = [1, 1, 1, 1, 1, 1]"

text \<open>The line wild, 1, 1, 1, 7 with the wild symbol 101.\<close>

definition wild_101_line :: SpinGrid where
  "wild_101_line = [101, 1, 1, 1, 7]"

text \<open>A machine whose only wild symbol is 50; every spin shows 50, 1, 1, 1, 2.\<close>

definition wild_50_machine :: SlotMachine where
  "wild_50_machine =
     \<lparr>config' = example_config\<lparr>wild_symbols := [50], window_size := 1\<rparr>,
      machine_pay_table = example_pay_table,
      reel_sets' = [''normal'' \<mapsto> \<lparr>reels' = [[50], [1], [1], [1], [2]], window_size' = 1\<rparr>],
      machine_rng = (\<lambda>i. 0)\<rparr>"

text \<open>A machine whose first reel shows the scatter in all three rows and no other reel does.\<close>

definition scatter_on_one_reel :: SlotMachine where
  "scatter_on_one_reel =
     \<lparr>config' = example_config, machine_pay_table = example_pay_table,
      reel_sets' = [''normal'' \<mapsto> \<lparr>reels' = [[20], [1], [1], [1], [1]], window_size' = 3\<rparr>],
      machine_rng = (\<lambda>i. 0)\<rparr>"

text \<open>A machine showing the scatter on reels 0, 1 and 2, in rows 0, 2 and 1.\<close>

definition scatter_on_three_reels :: SlotMachine where
  "scatter_on_three_reels =
     \<lparr>config' = example_config, machine_pay_table = example_pay_table,
      reel_sets' = [''normal'' \<mapsto>
         \<lparr>reels' = [[20, 1, 1], [1, 1, 20], [1, 20, 1], [1], [1]], window_size' = 3\<rparr>],
      machine_rng = (\<lambda>i. 0)\<rparr>"


text \<open>A balance distribution without spread whose mean lies below its lower bound.\<close>

definition mean_below_min :: BalanceDistribution where
  "mean_below_min = \<lparr>avg = 50, std = 0, dist_min = 100, dist_max = 200\<rparr>"

definition mean_below_min_config :: PlayerConfig where
  "mean_below_min_config =
     \<lparr>player_id = ''p1'', model_version = ''v1'', cluster_id = ''cluster_0'',
      config_initial_balance = mean_below_min, currency = ''USD''\<rparr>"

text \<open>
  A v1 player past its first bet, with loaded models that answer constants: the bet model
  2, the termination model 1 (above the threshold), the isolation forest 1 (normal).
\<close>

definition example_player_config :: PlayerConfig where
  "example_player_config =
     \<lparr>player_id = ''p1'', model_version = ''v1'', cluster_id = ''cluster_0'',
      config_initial_balance = \<lparr>avg = 100, std = 0, dist_min = 100, dist_max = 100\<rparr>,
      currency = ''USD''\<rparr>"

definition v1_models :: V1ModelLoader where
  "v1_models =
     \<lparr>models_loaded' = True,
      betting_model' = Some (\<lambda>input. Inr [2]),
      termination_model' = Some (\<lambda>input. Inr [1]),
      isolation_forest' = Some (\<lambda>input. Inr [1])\<rparr>"

definition v1_player :: V1Player where
  "v1_player =
     \<lparr>player_config = example_player_config, balance' = 100, active' = True,
      player_rng = (\<lambda>i. 0), model_loader' = v1_models, is_first_bet' = False,
      first_bet_amount' = 1\<rparr>"

definition v1_data :: SessionData where
  "v1_data =
     \<lparr>current_balance = 100, recent_spins = [], stats = default_SessionStats,
      available_bets = [1, 2, 5], data_in_free_spins = False, data_free_spins_remaining = 0\<rparr>"

text \<open>
  A session of the v1 player, two spins long. Every spin of the machine shows
  1, 1, 1, 2, 3; three of a kind pays half the bet, so each spin at bet 2 wins 1 and loses 1.
\<close>

definition half_pay_table :: PayTable where
  "half_pay_table =
     \<lparr>pay_table' = [''1'' \<mapsto> [1 / 2, 2, 5]], paylines' = [[0, 1, 2, 3, 4]]\<rparr>"

definition steady_reels :: "string \<rightharpoonup> ReelSet" where
  "steady_reels = [''normal'' \<mapsto> \<lparr>reels' = [[1], [1], [1], [2], [3]], window_size' = 1\<rparr>]"

definition steady_machine :: SlotMachine where
  "steady_machine =
     \<lparr>config' = example_config\<lparr>window_size := 1\<rparr>, machine_pay_table = half_pay_table,
      reel_sets' = steady_reels, machine_rng = (\<lambda>i. 0)\<rparr>"

definition example_controller :: "unit V1Player_ext SessionController" where
  "example_controller =
     \<lparr>player' = v1_player, machine' = steady_machine, spin_history' = [],
      in_free_spins' = False, free_spins_remaining' = 0\<rparr>"

definition example_clock :: Clock where
  "example_clock = \<lparr>elapsed_seconds = (\<lambda>n. 0), spin_clock = (\<lambda>n. 0), end_millis = 1500\<rparr>"

definition losing_spin :: "int \<Rightarrow> SpinResult" where
  "losing_spin n =
     \<lparr>grid = [1, 1, 1, 2, 3], bet_amount = 2, win_amount = 1, profit = - 1,
      trigger_free_spins = False, free_spins_remaining = 0, in_free_spins = False,
      timestamp = 0, spin_number = n\<rparr>"

text \<open>
  The same player on a machine configured with a bonus reel set only: outside free-spin
  mode \<^verbatim>\<open>GenerateSpinGrid\<close> finds no reel set named normal.
\<close>

definition bonus_only_machine :: SlotMachine where
  "bonus_only_machine =
     \<lparr>config' = example_config\<lparr>window_size := 1\<rparr>, machine_pay_table = half_pay_table,
      reel_sets' = [''bonus'' \<mapsto> \<lparr>reels' = [[1], [1], [1], [2], [3]], window_size' = 1\<rparr>],
      machine_rng = (\<lambda>i. 0)\<rparr>"

definition bonus_only_controller :: "unit V1Player_ext SessionController" where
  "bonus_only_controller =
     \<lparr>player' = v1_player, machine' = bonus_only_machine, spin_history' = [],
      in_free_spins' = False, free_spins_remaining' = 0\<rparr>"

text \<open>The controllers of that session: the fixed parts of player and machine.\<close>

definition steady_session :: "unit V1Player_ext SessionController \<Rightarrow> bool" where
  "steady_session c =
     (config' (machine' c) = example_config\<lparr>window_size := 1\<rparr> \<and>
      machine_pay_table (machine' c) = half_pay_table \<and>
      reel_sets' (machine' c) = steady_reels \<and>
      player_config (player' c) = example_player_config \<and>
      model_loader' (player' c) = v1_models \<and>
      \<not> is_first_bet' (player' c) \<and> active' (player' c) \<and> \<not> in_free_spins' c)"

text \<open>A pool of one worker: a task is submitted, then the pool is shut down, then the worker runs.\<close>

definition shutdown_with_pending_task :: "pool_event list" where
  "shutdown_with_pending_task = [Submit 7 0, Shutdown, WorkerPass 0]"

section \<open>Properties of the pay table\<close>

lemma to_string_1: "to_string 1 = ''1''"
  by code_simp

lemma CountConsecutiveSymbols_Nil: "CountConsecutiveSymbols [] = 0"
  by (simp add: CountConsecutiveSymbols_def)

lemma GetPaylineSymbols_six: "GetPaylineSymbols six_of_a_kind six_reel_line = [1, 1, 1, 1, 1, 1]"
  by (simp add: GetPaylineSymbols_def six_of_a_kind_def six_reel_line_def)

lemma GetPaylineSymbols_wild_101:
  "GetPaylineSymbols wild_101_line [0, 1, 2, 3, 4] = [101, 1, 1, 1, 7]"
  by (simp add: GetPaylineSymbols_def wild_101_line_def)

text \<open>
  Claim C2, as the code has it. For a payline whose run, counted from the left, has
  length \<open>k \<ge> 3\<close> and whose base symbol has a pay row of length \<open>m \<ge> 3\<close>: the line pays
  \<open>row[min(k - 3, m - 1)] * bet\<close> as long as \<open>k - 3 < m\<close>, and 0 once \<open>k - 3 \<ge> m\<close>. The
  index is guarded, not clamped; nothing is read outside the row.
\<close>

theorem payline_payout:
  assumes "symbols = GetPaylineSymbols g payline"
    and "k = CountConsecutiveSymbols symbols"
    and "3 \<le> k"
    and "pay_table' pt (base_symbol symbols) = Some row"
    and "3 \<le> length row"
  shows "CalculatePaylineWin pt g payline bet =
           (if k - 3 < int (length row)
            then row ! nat (min (k - 3) (int (length row) - 1)) * bet
            else 0)"
proof -
  from assms(2,3) have "symbols \<noteq> []"
    by (auto simp: CountConsecutiveSymbols_Nil)
  with assms show ?thesis
    by (simp add: CalculatePaylineWin_def GetPayout_def Let_def min_def)
qed

text \<open>The line wild, 1, 1, 1, 7 at bet 3: a run of 4 pays the second entry of the row.\<close>

theorem payline_payout_witness:
  "CountConsecutiveSymbols (GetPaylineSymbols wild_101_line [0, 1, 2, 3, 4]) = 4 \<and>
   pay_table' example_pay_table (base_symbol (GetPaylineSymbols wild_101_line [0, 1, 2, 3, 4]))
     = Some [1, 2, 5] \<and>
   CalculatePaylineWin example_pay_table wild_101_line [0, 1, 2, 3, 4] 3 = 6"
proof -
  have k: "CountConsecutiveSymbols (GetPaylineSymbols wild_101_line [0, 1, 2, 3, 4]) = 4"
    by (simp add: GetPaylineSymbols_wild_101 CountConsecutiveSymbols_def)
  have row: "pay_table' example_pay_table
               (base_symbol (GetPaylineSymbols wild_101_line [0, 1, 2, 3, 4])) = Some [1, 2, 5]"
    by (simp add: GetPaylineSymbols_wild_101 base_symbol_def to_string_1 example_pay_table_def)
  from payline_payout [OF refl refl _ row, of 3] k row show ?thesis
    by simp
qed

text \<open>
  Claim C2 as stated fails on six reels: six of a kind on a row of length 3 pays 0, not
  the last entry of the row times the bet.
\<close>

theorem payline_clamp_counterexample:
  "CountConsecutiveSymbols (GetPaylineSymbols six_of_a_kind six_reel_line) = 6 \<and>
   pay_table' example_pay_table (base_symbol (GetPaylineSymbols six_of_a_kind six_reel_line))
     = Some [1, 2, 5] \<and>
   CalculatePaylineWin example_pay_table six_of_a_kind six_reel_line 2 = 0 \<and>
   CalculatePaylineWin example_pay_table six_of_a_kind six_reel_line 2
     \<noteq> [1, 2, 5] ! nat (min (6 - 3) (3 - 1)) * 2"
  by (simp add: GetPaylineSymbols_six CountConsecutiveSymbols_def base_symbol_def to_string_1
      CalculatePaylineWin_def GetPayout_def example_pay_table_def)

section \<open>Wild substitution\<close>

lemma SlotMachine_loop_anchored:
  "first_symbol \<notin> set wild \<Longrightarrow>
   SlotMachine_count_loop wild first_symbol count rest =
     count + int (length (takeWhile (\<lambda>s. s = first_symbol \<or> s \<in> set wild) rest))"
  by (induction rest arbitrary: count) (auto simp: IsWildSymbol_def)

lemma spec_run_length_Cons_wild:
  "w \<in> set wild \<Longrightarrow> spec_run_length wild (w # rest) = 1 + spec_run_length wild rest"
  by (auto simp: spec_run_length_def spec_anchor_def split: list.splits)

lemma spec_run_length_Cons_anchor:
  "a \<notin> set wild \<Longrightarrow>
   spec_run_length wild (a # rest) =
     1 + int (length (takeWhile (\<lambda>s. s = a \<or> s \<in> set wild) rest))"
  by (auto simp: spec_run_length_def spec_anchor_def split: list.splits)

lemma SlotMachine_loop_wild:
  "first_symbol \<in> set wild \<Longrightarrow>
   SlotMachine_count_loop wild first_symbol count rest = count + spec_run_length wild rest"
proof (induction rest arbitrary: count first_symbol)
  case Nil
  then show ?case by (simp add: spec_run_length_def spec_anchor_def)
next
  case (Cons x xs)
  show ?case
  proof (cases "x \<in> set wild")
    case True
    with Cons show ?thesis
      by (simp add: IsWildSymbol_def spec_run_length_Cons_wild)
  next
    case False
    with Cons.prems have "x \<noteq> first_symbol" by auto
    with False Cons.prems show ?thesis
      by (simp add: IsWildSymbol_def SlotMachine_loop_anchored spec_run_length_Cons_anchor)
  qed
qed

text \<open>
  The counting function of the slot machine, which consults the configured wild symbols,
  computes the run length of the specification for every wild set.
\<close>

lemma SlotMachine_count_is_spec:
  "SlotMachine_CountConsecutiveSymbols wild symbols = spec_run_length wild symbols"
proof (cases symbols)
  case Nil
  then show ?thesis
    by (simp add: SlotMachine_CountConsecutiveSymbols_def spec_run_length_def spec_anchor_def)
next
  case (Cons s0 rest)
  then show ?thesis
    by (cases "s0 \<in> set wild")
       (simp_all add: SlotMachine_CountConsecutiveSymbols_def SlotMachine_loop_wild
          SlotMachine_loop_anchored spec_run_length_Cons_wild spec_run_length_Cons_anchor)
qed

lemma count_loop_is_SlotMachine_101:
  "count_loop first_symbol count rest = SlotMachine_count_loop [101] first_symbol count rest"
  by (induction rest arbitrary: first_symbol count) (auto simp: IsWildSymbol_def)

text \<open>
  The counting function of the pay table, the one the payout uses, computes the run
  length of the specification for the wild set \<open>{101}\<close>, whatever the machine configures.
\<close>

lemma CountConsecutiveSymbols_is_spec_101:
  "CountConsecutiveSymbols symbols = spec_run_length [101] symbols"
  using SlotMachine_count_is_spec [of "[101]" symbols]
  by (cases symbols)
     (simp_all add: CountConsecutiveSymbols_def SlotMachine_CountConsecutiveSymbols_def
        count_loop_is_SlotMachine_101)

lemma upt_0_3: "[0..<3] = [0, 1, 2]"
  by code_simp

lemma upt_0_5: "[0..<5] = [0, 1, 2, 3, 4]"
  by code_simp

lemma GenerateGrid_wild_50:
  "GenerateGrid \<lparr>reels' = [[50], [1], [1], [1], [2]], window_size' = 1\<rparr> (\<lambda>i. 0)
     = Inr ([50, 1, 1, 1, 2], \<lambda>i. 0)"
  by (simp add: GenerateGrid_def GetSymbolsAtPosition_def uniform_position_def rng_next_def)

lemma GetPaylineSymbols_wild_50:
  "GetPaylineSymbols [50, 1, 1, 1, 2] [0, 1, 2, 3, 4] = [50, 1, 1, 1, 2]"
  by (simp add: GetPaylineSymbols_def)

lemma win_wild_50: "CalculateTotalWin example_pay_table [50, 1, 1, 1, 2] 1 1 = 0"
  by (simp add: CalculateTotalWin_def example_pay_table_def CalculatePaylineWin_def
      GetPaylineSymbols_wild_50 CountConsecutiveSymbols_def)

lemma trigger_wild_50: "CheckFreeSpinsTrigger wild_50_machine [50, 1, 1, 1, 2] = Inr False"
  by (simp add: CheckFreeSpinsTrigger_def wild_50_machine_def example_config_def
      column_has_scatter_def upt_0_5)

lemma Spin_wild_50:
  "map_sum id (\<lambda>(r, m). (grid r, win_amount r)) (Spin wild_50_machine 1 False 0 0)
     = Inr ([50, 1, 1, 1, 2], 0)"
proof -
  have g: "GenerateSpinGrid wild_50_machine ''normal'' = Inr ([50, 1, 1, 1, 2], wild_50_machine)"
    by (simp add: GenerateSpinGrid_def wild_50_machine_def GenerateGrid_wild_50)
  have w: "CalculateWinAmount wild_50_machine [50, 1, 1, 1, 2] 1
             (active_lines (config' wild_50_machine)) = 0"
    using win_wild_50 by (simp add: CalculateWinAmount_def wild_50_machine_def example_config_def)
  have n: "reel_sets' wild_50_machine ''normal'' \<noteq> None"
    by (simp add: wild_50_machine_def)
  show ?thesis
    by (simp add: Spin_def g w n trigger_wild_50)
qed

text \<open>
  Claim C3 at a machine whose configured wild symbol is 50. The line 50, 1, 1, 1, 2 has the
  anchor 1 and a run of 4 under the specification's contract (a payout of 2 at bet 1), and
  the counting function of the slot machine agrees; the pay table counts a run of 1 and
  the spin pays nothing.
\<close>

theorem configured_wild_ignored:
  "wild_symbols (config' wild_50_machine) = [50] \<and>
   map_sum id (\<lambda>(r, m). (grid r, win_amount r)) (Spin wild_50_machine 1 False 0 0)
     = Inr ([50, 1, 1, 1, 2], 0) \<and>
   CountConsecutiveSymbols (GetPaylineSymbols [50, 1, 1, 1, 2] [0, 1, 2, 3, 4]) = 1 \<and>
   spec_anchor [50] (GetPaylineSymbols [50, 1, 1, 1, 2] [0, 1, 2, 3, 4]) = Some 1 \<and>
   spec_run_length [50] (GetPaylineSymbols [50, 1, 1, 1, 2] [0, 1, 2, 3, 4]) = 4 \<and>
   SlotMachine_CountConsecutiveSymbols [50] (GetPaylineSymbols [50, 1, 1, 1, 2] [0, 1, 2, 3, 4])
     = 4 \<and>
   GetPayout (machine_pay_table wild_50_machine) (to_string 1) 4 * 1 = 2"
proof -
  have "wild_symbols (config' wild_50_machine) = [50]"
    by (simp add: wild_50_machine_def)
  moreover have "GetPayout (machine_pay_table wild_50_machine) (to_string 1) 4 * 1 = 2"
    by (simp add: GetPayout_def wild_50_machine_def example_pay_table_def to_string_1)
  moreover have "CountConsecutiveSymbols [50, 1, 1, 1, 2] = 1"
    by (simp add: CountConsecutiveSymbols_def)
  moreover have "spec_anchor [50] [50, 1, 1, 1, 2] = Some 1"
    by (simp add: spec_anchor_def)
  moreover have "spec_run_length [50] [50, 1, 1, 1, 2] = 4"
    by (simp add: spec_run_length_def spec_anchor_def)
  moreover have "SlotMachine_CountConsecutiveSymbols [50] [50, 1, 1, 1, 2] = 4"
    by (simp add: SlotMachine_CountConsecutiveSymbols_def IsWildSymbol_def)
  ultimately show ?thesis
    using Spin_wild_50 by (simp add: GetPaylineSymbols_wild_50)
qed

section \<open>Scatter detection\<close>

lemma GetSymbolsAtPosition_length:
  "length (GetSymbolsAtPosition symbols position count) = nat count"
  by (simp add: GetSymbolsAtPosition_def)

lemma GenerateGrid_loop_prefix:
  "\<exists>rest. fst (GenerateGrid_loop window reels g acc) = acc @ rest"
proof (induction reels arbitrary: g acc)
  case Nil
  show ?case by simp
next
  case (Cons reel reels)
  from Cons [of "rng_next g"
      "acc @ GetSymbolsAtPosition reel (uniform_position g (length reel)) window"]
  show ?case by (auto simp: Let_def)
qed

text \<open>
  The grid the assembler returns: its length is the number of reels times the window, and
  its reel column \<open>c\<close> is the window read from reel \<open>c\<close> at the position of the
  \<open>c\<close>-th draw.
\<close>

lemma GenerateGrid_loop_column:
  "c < length reels \<Longrightarrow>
   take (nat window) (drop (length acc + c * nat window)
     (fst (GenerateGrid_loop window reels g acc)))
   = GetSymbolsAtPosition (reels ! c)
       (uniform_position ((rng_next ^^ c) g) (length (reels ! c))) window"
proof (induction reels arbitrary: g acc c)
  case Nil
  then show ?case by simp
next
  case (Cons reel reels)
  let ?symbols = "GetSymbolsAtPosition reel (uniform_position g (length reel)) window"
  show ?case
  proof (cases c)
    case 0
    from GenerateGrid_loop_prefix [of window reels "rng_next g" "acc @ ?symbols"]
    obtain rest where
      "fst (GenerateGrid_loop window reels (rng_next g) (acc @ ?symbols)) = (acc @ ?symbols) @ rest"
      by blast
    with 0 show ?thesis
      by (simp add: Let_def GetSymbolsAtPosition_length)
  next
    case (Suc c')
    with Cons.prems have "c' < length reels" by simp
    from Cons.IH [OF this, of "acc @ ?symbols" "rng_next g"] Suc show ?thesis
      by (simp add: Let_def GetSymbolsAtPosition_length funpow_swap1 ac_simps)
  qed
qed

lemma GenerateGrid_loop_length:
  "length (fst (GenerateGrid_loop window reels g acc)) = length acc + length reels * nat window"
  by (induction reels arbitrary: g acc) (simp_all add: Let_def GetSymbolsAtPosition_length)

lemma GenerateGrid_writes_reel_columns:
  assumes "GenerateGrid rs g = Inr (grid0, g1)" and "c < length (reels' rs)"
  shows "length grid0 = length (reels' rs) * nat (window_size' rs) \<and>
         reel_column grid0 (nat (window_size' rs)) c
           = GetSymbolsAtPosition (reels' rs ! c)
               (uniform_position ((rng_next ^^ c) g) (length (reels' rs ! c))) (window_size' rs)"
proof -
  from assms(1) have "grid0 = fst (GenerateGrid_loop (window_size' rs) (reels' rs) g [])"
    by (auto simp: GenerateGrid_def split: if_splits)
  with GenerateGrid_loop_column [OF assms(2), of "window_size' rs" "[]" g]
    GenerateGrid_loop_length [of "window_size' rs" "reels' rs" g "[]"]
  show ?thesis
    by (simp add: reel_column_def)
qed

text \<open>
  The cells the detector reads lie inside the grid: with a positive window \<open>ws\<close> and
  \<open>num_reels = len div ws\<close>, every \<open>row * num_reels + col\<close> with \<open>row < ws\<close> and
  \<open>col < num_reels\<close> is below \<open>len\<close>.
\<close>

lemma window_times_quotient:
  fixes ws len :: int
  shows "0 < ws \<Longrightarrow> ws * (len div ws) \<le> len"
  using mult_div_mod_eq [of ws len] pos_mod_sign [of ws len] by linarith

lemma detector_reads_inside_grid:
  fixes ws row col len :: int
  assumes "0 < ws" "0 \<le> row" "row < ws" "0 \<le> col" "col < len div ws"
  shows "0 \<le> row * (len div ws) + col \<and> row * (len div ws) + col < len"
proof -
  let ?n = "len div ws"
  from assms have n: "0 < ?n" by simp
  have "row * ?n + col < (row + 1) * ?n"
    using assms(5) by (simp add: algebra_simps)
  also have "\<dots> \<le> ws * ?n"
    using assms(3) n by (intro mult_right_mono) simp_all
  also have "\<dots> \<le> len"
    using assms(1) window_times_quotient by simp
  finally show ?thesis
    using assms(2,4) n by simp
qed

lemma GenerateGrid_one_reel:
  "GenerateGrid \<lparr>reels' = [[20], [1], [1], [1], [1]], window_size' = 3\<rparr> (\<lambda>i. 0)
     = Inr ([20, 20, 20, 1, 1, 1, 1, 1, 1, 1, 1, 1, 1, 1, 1], \<lambda>i. 0)"
  by (simp add: GenerateGrid_def GetSymbolsAtPosition_def uniform_position_def rng_next_def
      upt_0_3)

lemma GenerateGrid_three_reels:
  "GenerateGrid \<lparr>reels' = [[20, 1, 1], [1, 1, 20], [1, 20, 1], [1], [1]], window_size' = 3\<rparr>
     (\<lambda>i. 0)
     = Inr ([20, 1, 1, 1, 1, 20, 1, 20, 1, 1, 1, 1, 1, 1, 1], \<lambda>i. 0)"
  by (simp add: GenerateGrid_def GetSymbolsAtPosition_def uniform_position_def rng_next_def
      upt_0_3)

lemma trigger_one_reel:
  "CheckFreeSpinsTrigger scatter_on_one_reel [20, 20, 20, 1, 1, 1, 1, 1, 1, 1, 1, 1, 1, 1, 1]
     = Inr True"
  by (simp add: CheckFreeSpinsTrigger_def scatter_on_one_reel_def example_config_def
      column_has_scatter_def upt_0_5 upt_0_3)

lemma trigger_three_reels:
  "CheckFreeSpinsTrigger scatter_on_three_reels
     [20, 1, 1, 1, 1, 20, 1, 20, 1, 1, 1, 1, 1, 1, 1] = Inr False"
  by (simp add: CheckFreeSpinsTrigger_def scatter_on_three_reels_def example_config_def
      column_has_scatter_def upt_0_5 upt_0_3)

lemma Spin_one_reel:
  "map_sum id (\<lambda>(r, m). (grid r, trigger_free_spins r)) (Spin scatter_on_one_reel 1 False 0 0)
     = Inr ([20, 20, 20, 1, 1, 1, 1, 1, 1, 1, 1, 1, 1, 1, 1], True)"
proof -
  have g: "GenerateSpinGrid scatter_on_one_reel ''normal''
             = Inr ([20, 20, 20, 1, 1, 1, 1, 1, 1, 1, 1, 1, 1, 1, 1], scatter_on_one_reel)"
    by (simp add: GenerateSpinGrid_def scatter_on_one_reel_def GenerateGrid_one_reel)
  have n: "reel_sets' scatter_on_one_reel ''normal'' \<noteq> None"
    by (simp add: scatter_on_one_reel_def)
  show ?thesis
    by (simp add: Spin_def g n trigger_one_reel Let_def)
qed

lemma Spin_three_reels:
  "map_sum id (\<lambda>(r, m). (grid r, trigger_free_spins r)) (Spin scatter_on_three_reels 1 False 0 0)
     = Inr ([20, 1, 1, 1, 1, 20, 1, 20, 1, 1, 1, 1, 1, 1, 1], False)"
proof -
  have g: "GenerateSpinGrid scatter_on_three_reels ''normal''
             = Inr ([20, 1, 1, 1, 1, 20, 1, 20, 1, 1, 1, 1, 1, 1, 1], scatter_on_three_reels)"
    by (simp add: GenerateSpinGrid_def scatter_on_three_reels_def GenerateGrid_three_reels)
  have n: "reel_sets' scatter_on_three_reels ''normal'' \<noteq> None"
    by (simp add: scatter_on_three_reels_def)
  show ?thesis
    by (simp add: Spin_def g n trigger_three_reels Let_def)
qed

lemma columns_one_reel:
  "scatter_reel_columns 20 [20, 20, 20, 1, 1, 1, 1, 1, 1, 1, 1, 1, 1, 1, 1] 3 5 = 1"
  by (simp add: scatter_reel_columns_def reel_column_def upt_0_5)

lemma columns_three_reels:
  "scatter_reel_columns 20 [20, 1, 1, 1, 1, 20, 1, 20, 1, 1, 1, 1, 1, 1, 1] 3 5 = 3"
  by (simp add: scatter_reel_columns_def reel_column_def upt_0_5)

text \<open>
  Claim C1 at two machines with five reels and a window of three. On the first the
  scatter shows on reel 0 only (one reel column) and the spin reports a trigger; on the
  second it shows on reels 0, 1 and 2 (three reel columns) and the spin reports none. The
  assembler writes the window of reel \<open>c\<close> at the cells \<open>3c .. 3c + 2\<close>; the detector
  reads column \<open>c\<close> at the cells \<open>c\<close>, \<open>5 + c\<close>, \<open>10 + c\<close>.
\<close>

theorem scatter_detector_reads_other_cells:
  "map_sum id (\<lambda>(r, m). (grid r, trigger_free_spins r)) (Spin scatter_on_one_reel 1 False 0 0)
     = Inr ([20, 20, 20, 1, 1, 1, 1, 1, 1, 1, 1, 1, 1, 1, 1], True) \<and>
   scatter_reel_columns 20 [20, 20, 20, 1, 1, 1, 1, 1, 1, 1, 1, 1, 1, 1, 1] 3 5 = 1 \<and>
   map_sum id (\<lambda>(r, m). (grid r, trigger_free_spins r)) (Spin scatter_on_three_reels 1 False 0 0)
     = Inr ([20, 1, 1, 1, 1, 20, 1, 20, 1, 1, 1, 1, 1, 1, 1], False) \<and>
   scatter_reel_columns 20 [20, 1, 1, 1, 1, 20, 1, 20, 1, 1, 1, 1, 1, 1, 1] 3 5 = 3"
  using Spin_one_reel Spin_three_reels columns_one_reel columns_three_reels by simp

section \<open>Free-spin mode\<close>









section \<open>Initial balance\<close>

lemma GenerateBalance_in_range:
  "0 < std bd \<Longrightarrow> dist_min bd \<le> dist_max bd \<Longrightarrow>
   dist_min bd \<le> GenerateBalance bd sample \<and> GenerateBalance bd sample \<le> dist_max bd"
  by (simp add: GenerateBalance_def clamp_def)

lemma GenerateBalance_no_spread: "std bd \<le> 0 \<Longrightarrow> GenerateBalance bd sample = avg bd"
  by (simp add: GenerateBalance_def)

text \<open>
  Claim C7 at a distribution with mean 50, no spread and bounds 100 and 200: the sampled
  balance, at construction and at reset, is the mean 50, below the lower bound. The clamp
  is only reached when the spread is positive.
\<close>

theorem balance_below_min:
  "dist_min mean_below_min \<le> dist_max mean_below_min \<and>
   std mean_below_min \<le> 0 \<and>
   GenerateBalance mean_below_min 150 = 50 \<and>
   balance' (BasePlayer mean_below_min_config 150 (\<lambda>i. 0)) = 50 \<and>
   balance' (Reset (BasePlayer mean_below_min_config 150 (\<lambda>i. 0)) 150) = 50 \<and>
   GenerateBalance mean_below_min 150 < dist_min mean_below_min"
  by (simp add: mean_below_min_def mean_below_min_config_def GenerateBalance_def
      BasePlayer_def Reset_def)

section \<open>The v1 player's decision\<close>

lemma PredictBetAmount_ignores_termination:
  "PredictBetAmount (ml\<lparr>termination_model' := tm, isolation_forest' := forest\<rparr>) input
     = PredictBetAmount ml input"
  by (simp add: PredictBetAmount_def)

lemma V1Player_decision_bet:
  "fst (V1Player_MakeDecision p machine sd) =
     make_PlayerDecision
       (if is_first_bet' p then first_bet_amount' p else fst (DecideBetAmount p sd))
       (0.1 + (1.0 - 0.1) *
          (real (player_rng (if is_first_bet' p then p else snd (DecideBetAmount p sd)) 0 mod 2 ^ 64)
           / 2 ^ 64))"
  by (simp add: V1Player_MakeDecision_def DecideDelayTime_def GetRandomDelay_def
      case_prod_beta Let_def)

lemma DecideBetAmount_ignores_termination:
  "fst (DecideBetAmount
          (p\<lparr>model_loader' := (model_loader' p)\<lparr>termination_model' := tm,
                                                  isolation_forest' := forest\<rparr>\<rparr>) sd)
     = fst (DecideBetAmount p sd) \<and>
   player_rng (snd (DecideBetAmount
          (p\<lparr>model_loader' := (model_loader' p)\<lparr>termination_model' := tm,
                                                  isolation_forest' := forest\<rparr>\<rparr>) sd))
     = player_rng (snd (DecideBetAmount p sd))"
  by (simp add: DecideBetAmount_def PredictBetAmount_ignores_termination
      BasePlayer_IsValidBet_def GetRandomBet_def Let_def)

text \<open>
  Claim C4, as the code has it. The decision of the v1 player never consults the
  termination model or the isolation forest: it is the same whatever those two models are.
  On every decision after the first, the bet is the one \<^verbatim>\<open>DecideBetAmount\<close> selects, and
  the player continues exactly when that bet is positive.
\<close>

theorem v1_decision_ignores_termination:
  "fst (V1Player_MakeDecision
          (p\<lparr>model_loader' := (model_loader' p)\<lparr>termination_model' := tm,
                                                  isolation_forest' := forest\<rparr>\<rparr>) machine sd)
     = fst (V1Player_MakeDecision p machine sd) \<and>
   (\<not> is_first_bet' p \<longrightarrow>
      decision_bet_amount (fst (V1Player_MakeDecision p machine sd)) = fst (DecideBetAmount p sd) \<and>
      continue_playing (fst (V1Player_MakeDecision p machine sd))
        = (0 < fst (DecideBetAmount p sd)))"
  using DecideBetAmount_ignores_termination [where p = p and tm = tm and forest = forest and sd = sd]
  by (simp add: V1Player_decision_bet make_PlayerDecision_def)

lemma ShouldTerminate_v1_player: "ShouldTerminate v1_player v1_data"
  by (simp add: ShouldTerminate_def PredictTermination_def v1_player_def v1_models_def)

lemma DecideBetAmount_v1_player: "fst (DecideBetAmount v1_player v1_data) = 2"
  by (simp add: DecideBetAmount_def PredictBetAmount_def v1_player_def v1_models_def
      BasePlayer_IsValidBet_def v1_data_def)

text \<open>
  Claim C4 as stated fails: at a session state where the termination predictor answers
  stop (output 1, above 0.5), the v1 player after its first bet continues with bet 2.
\<close>

theorem v1_continues_against_predictor:
  "\<not> is_first_bet' v1_player \<and>
   PredictTermination (model_loader' v1_player) (PrepareTerminationInput v1_data) \<and>
   ShouldTerminate v1_player v1_data \<and>
   continue_playing (fst (V1Player_MakeDecision v1_player ''m1'' v1_data)) \<and>
   decision_bet_amount (fst (V1Player_MakeDecision v1_player ''m1'' v1_data)) = 2"
proof -
  have "\<not> is_first_bet' v1_player"
    by (simp add: v1_player_def)
  moreover have "fst (V1Player_MakeDecision v1_player ''m1'' v1_data)
                   = make_PlayerDecision 2
                       (0.1 + (1.0 - 0.1) *
                          (real (player_rng (snd (DecideBetAmount v1_player v1_data)) 0 mod 2 ^ 64)
                           / 2 ^ 64))"
    using calculation DecideBetAmount_v1_player by (simp add: V1Player_decision_bet)
  ultimately show ?thesis
    using ShouldTerminate_v1_player
    by (simp add: make_PlayerDecision_def ShouldTerminate_def)
qed

text \<open>The same player with both termination models removed decides the same: bet 2, continue.\<close>

theorem v1_decision_ignores_termination_witness:
  "\<not> is_first_bet' v1_player \<and>
   fst (V1Player_MakeDecision
          (v1_player\<lparr>model_loader' := (model_loader' v1_player)
                        \<lparr>termination_model' := None, isolation_forest' := None\<rparr>\<rparr>) ''m1'' v1_data)
     = fst (V1Player_MakeDecision v1_player ''m1'' v1_data) \<and>
   decision_bet_amount (fst (V1Player_MakeDecision v1_player ''m1'' v1_data)) = 2 \<and>
   continue_playing (fst (V1Player_MakeDecision v1_player ''m1'' v1_data))"
proof -
  have "\<not> is_first_bet' v1_player"
    by (simp add: v1_player_def)
  with v1_decision_ignores_termination
         [where p = v1_player and tm = None and forest = None and machine = "''m1''"
            and sd = v1_data]
  show ?thesis
    by (simp add: DecideBetAmount_v1_player)
qed

section \<open>The session loop\<close>

lemma GenerateSpinGrid_returns:
  assumes "reel_sets' m name = Some rs" and "0 \<le> window_size' rs"
  shows "\<exists>g rng1. GenerateSpinGrid m name = Inr (g, m\<lparr>machine_rng := rng1\<rparr>)"
proof -
  obtain g rng1 where "GenerateGrid rs (machine_rng m) = Inr (g, rng1)"
    using assms(2)
    by (cases "GenerateGrid_loop (window_size' rs) (reels' rs) (machine_rng m) []")
       (auto simp: GenerateGrid_def not_less)
  with assms(1) have "GenerateSpinGrid m name = Inr (g, m\<lparr>machine_rng := rng1\<rparr>)"
    by (simp add: GenerateSpinGrid_def)
  then show ?thesis by blast
qed

lemma machine_ready_rng: "machine_ready (m\<lparr>machine_rng := g\<rparr>) = machine_ready m"
  by (simp add: machine_ready_def)

lemma Spin_returns:
  assumes "machine_ready m"
  shows "\<exists>res m1. Spin m bet fs r now = Inr (res, m1) \<and> machine_ready m1"
proof -
  from assms obtain rs where n: "reel_sets' m ''normal'' = Some rs" "0 \<le> window_size' rs"
    by (auto simp: machine_ready_def split: option.splits)
  from assms have ws: "window_size (config' m) \<noteq> 0"
    by (simp add: machine_ready_def)
  from GenerateSpinGrid_returns [OF n] obtain g rng1 where
    gn: "GenerateSpinGrid m ''normal'' = Inr (g, m\<lparr>machine_rng := rng1\<rparr>)" by blast
  show ?thesis
  proof (cases "fs \<and> reel_sets' m ''bonus'' \<noteq> None")
    case True
    then obtain rb where b: "reel_sets' m ''bonus'' = Some rb" by auto
    with assms have "0 \<le> window_size' rb"
      by (simp add: machine_ready_def)
    from GenerateSpinGrid_returns [OF b this] obtain gb rngb where
      "GenerateSpinGrid m ''bonus'' = Inr (gb, m\<lparr>machine_rng := rngb\<rparr>)" by blast
    with True b assms show ?thesis
      by (simp add: Spin_def Let_def machine_ready_rng)
  next
    case False
    show ?thesis
    proof (cases fs)
      case True
      with False have "reel_sets' m ''bonus'' = None" by simp
      with True gn assms show ?thesis
        by (simp add: Spin_def Let_def machine_ready_rng)
    next
      case False
      with gn n ws assms show ?thesis
        by (simp add: Spin_def Let_def machine_ready_rng CheckFreeSpinsTrigger_def)
    qed
  qed
qed

lemma ExecuteSpin_Inr:
  assumes "ExecuteSpin clock c bet st = Inr (c2, st2)"
  shows "\<exists>spin. spin_history' c2 = spin_history' c @ [spin] \<and>
                st2 = UpdateSessionStats st spin \<and> bet_amount spin = bet"
proof -
  from assms obtain res m1 where
    sp: "Spin (machine' c) bet (in_free_spins' c) (free_spins_remaining' c)
           (spin_clock clock (length (spin_history' c))) = Inr (res, m1)"
    by (auto simp: ExecuteSpin_def Let_def split: sum.splits)
  then have "bet_amount res = bet"
    by (auto simp: Spin_def Let_def split: sum.splits prod.splits if_splits)
  with assms sp show ?thesis
    by (auto simp: ExecuteSpin_def Let_def)
qed

lemma ExecuteSpin_Inl:
  "ExecuteSpin clock c bet st = Inl (e, c2) \<Longrightarrow> spin_history' c2 = spin_history' c"
  by (auto simp: ExecuteSpin_def Let_def split: sum.splits prod.splits)

lemma RunSession_body_Inl:
  assumes "RunSession_body MakeDecision clock max_spins max_duration (c, st) = Inl (c1, st1)"
  shows "st1 = st \<and> spin_history' c1 = spin_history' c"
proof (cases "IsActive (player' c) \<and> \<not> CheckSessionLimits clock c st max_spins max_duration")
  case False
  with assms show ?thesis
    by (auto simp: RunSession_body_def)
next
  case True
  obtain decision p1 where d: "decision_at MakeDecision c = (decision, p1)"
    by (cases "decision_at MakeDecision c")
  show ?thesis
  proof (cases "ExecuteSpin clock (c\<lparr>player' := p1\<rparr>) (decision_bet_amount decision) st")
    case (Inl a)
    then obtain e c2 where "a = (e, c2)" by (cases a)
    with Inl ExecuteSpin_Inl [of clock "c\<lparr>player' := p1\<rparr>" "decision_bet_amount decision" st e c2]
    have "spin_history' c2 = spin_history' c" by simp
    with assms True d Inl \<open>a = (e, c2)\<close> show ?thesis
      by (auto simp: RunSession_body_def decision_at_def Let_def split: if_splits)
  next
    case (Inr b)
    with assms True d show ?thesis
      by (auto simp: RunSession_body_def decision_at_def Let_def split: if_splits prod.splits)
  qed
qed

lemma RunSession_body_Inr:
  assumes "RunSession_body MakeDecision clock max_spins max_duration (c, st) = Inr (c2, st2)"
  shows "\<exists>spin. spin_history' c2 = spin_history' c @ [spin] \<and>
                st2 = UpdateSessionStats st spin \<and> 0 < bet_amount spin"
proof -
  obtain decision p1 where d: "decision_at MakeDecision c = (decision, p1)"
    by (cases "decision_at MakeDecision c")
  from assms d have ex: "ExecuteSpin clock (c\<lparr>player' := p1\<rparr>) (decision_bet_amount decision) st
                          = Inr (c2, st2)"
    and pos: "0 < decision_bet_amount decision"
    by (auto simp: RunSession_body_def decision_at_def Let_def
        split: if_splits sum.splits prod.splits)
  from ExecuteSpin_Inr [OF ex] pos show ?thesis
    by auto
qed

lemma RunSession_loop_invariant:
  assumes "P s"
    and "\<And>s s1. P s \<Longrightarrow>
           RunSession_body MakeDecision clock max_spins max_duration s = Inr s1 \<Longrightarrow> P s1"
    and "\<And>s s1. P s \<Longrightarrow>
           RunSession_body MakeDecision clock max_spins max_duration s = Inl s1 \<Longrightarrow> Q s1"
  shows "Q (RunSession_loop MakeDecision clock max_spins max_duration s)"
  using assms
proof (induction MakeDecision clock max_spins max_duration s rule: RunSession_loop.induct)
  case (1 MakeDecision clock max_spins max_duration s)
  note P = "1.prems"(1) and step = "1.prems"(2) and stop = "1.prems"(3)
  show ?case
  proof (cases "RunSession_body MakeDecision clock max_spins max_duration s")
    case (Inl s1)
    with stop [OF P Inl] show ?thesis
      by (simp add: RunSession_loop.simps [of MakeDecision clock max_spins max_duration s])
  next
    case (Inr s1)
    have "Q (RunSession_loop MakeDecision clock max_spins max_duration s1)"
    proof (rule "1.IH" [OF Inr step [OF P Inr]])
      show "\<And>s s1. P s \<Longrightarrow>
              RunSession_body MakeDecision clock max_spins max_duration s = Inr s1 \<Longrightarrow> P s1"
        by (rule step)
      show "\<And>s s1. P s \<Longrightarrow>
              RunSession_body MakeDecision clock max_spins max_duration s = Inl s1 \<Longrightarrow> Q s1"
        by (rule stop)
    qed
    with Inr show ?thesis
      by (simp add: RunSession_loop.simps [of MakeDecision clock max_spins max_duration s])
  qed
qed

lemma Spin_keeps_config:
  assumes "Spin m bet fs r now = Inr (res, m1)"
  shows "config' m1 = config' m"
  using assms
  by (auto simp: Spin_def GenerateSpinGrid_def Let_def
      split: sum.splits prod.splits if_splits option.splits)

lemma Spin_traps_at_zero_window:
  assumes "Spin m bet fs r now = Inl DivisionByZero"
  shows "window_size (config' m) = 0"
  using assms
  by (auto simp: Spin_def GenerateSpinGrid_def GenerateGrid_def CheckFreeSpinsTrigger_def Let_def
      split: sum.splits prod.splits if_splits option.splits)

lemma ExecuteSpin_of_result:
  assumes "Spin (machine' c) bet (in_free_spins' c) (free_spins_remaining' c)
             (spin_clock clock (length (spin_history' c))) = Inr (res, m1)"
  shows "\<exists>c2 st2. ExecuteSpin clock c bet st = Inr (c2, st2) \<and>
           machine' c2 = m1 \<and>
           active' (player' c2) = active' (player' c) \<and>
           length (spin_history' c2) = length (spin_history' c) + 1"
  using assms
  by (simp add: ExecuteSpin_def Let_def UpdateBalance_def)

lemma ExecuteSpin_of_exception:
  assumes "Spin (machine' c) bet (in_free_spins' c) (free_spins_remaining' c)
             (spin_clock clock (length (spin_history' c))) = Inl e"
  shows "ExecuteSpin clock c bet st = Inl (e, c\<lparr>player' := UpdateBalance (player' c) (- bet)\<rparr>)"
  using assms
  by (simp add: ExecuteSpin_def Let_def)

lemma keeps_account_decision:
  assumes "keeps_account MakeDecision" and "decision_at MakeDecision c = (decision, p1)"
  shows "balance' p1 = balance' (player' c)" and "active' p1 = active' (player' c)"
proof -
  from assms(1) have "balance' (snd (decision_at MakeDecision c)) = balance' (player' c)"
    "active' (snd (decision_at MakeDecision c)) = active' (player' c)"
    by (simp_all add: keeps_account_def decision_at_def)
  with assms(2) show "balance' p1 = balance' (player' c)" and "active' p1 = active' (player' c)"
    by simp_all
qed

lemma RunSession_body_stops_account:
  assumes keep: "keeps_account MakeDecision"
    and stop: "stop_condition MakeDecision clock max_spins max_duration (c, st)"
  shows "\<exists>c1. RunSession_body MakeDecision clock max_spins max_duration (c, st) = Inl (c1, st) \<and>
              spin_history' c1 = spin_history' c \<and>
              balance' (player' c1) = balance' (player' c)"
proof -
  obtain decision p1 where d: "decision_at MakeDecision c = (decision, p1)"
    by (cases "decision_at MakeDecision c")
  note kp = keeps_account_decision [OF keep d]
  from stop d kp show ?thesis
    by (auto simp: RunSession_body_def stop_condition_def decision_at_def IsValidBet_def
        CheckSessionLimits_def Let_def)
qed

lemma not_stop_condition:
  assumes act: "active' (player' c)"
    and keep: "keeps_account MakeDecision"
    and d: "decision_at MakeDecision c = (decision, p1)"
    and go: "\<not> stop_condition MakeDecision clock max_spins max_duration (c, st)"
  shows "RunSession_body MakeDecision clock max_spins max_duration (c, st) =
           (case ExecuteSpin clock (c\<lparr>player' := p1\<rparr>) (decision_bet_amount decision) st of
              Inl (e, c2) \<Rightarrow> Inl (c2, st)
            | Inr (c2, st2) \<Rightarrow> Inr (c2, st2))"
proof -
  note kp = keeps_account_decision [OF keep d]
  from go d have conds:
    "continue_playing decision" "0 < decision_bet_amount decision"
    "IsValidBet (machine' c) (decision_bet_amount decision) (GetCurrency p1)"
    "decision_bet_amount decision \<le> GetBalance p1"
    "\<not> CheckSessionLimits clock c st max_spins max_duration"
    by (auto simp: stop_condition_def IsValidBet_def CheckSessionLimits_def Let_def)
  from conds(2,4) kp act have active: "IsActive (player' c)"
    by (simp add: IsActive_def GetBalance_def)
  from active conds d show ?thesis
    by (simp add: RunSession_body_def decision_at_def Let_def)
qed

lemma RunSession_body_spins:
  assumes act: "active' (player' c)"
    and keep: "keeps_account MakeDecision"
    and window: "window_size (config' (machine' c)) \<noteq> 0"
    and go: "\<not> stop_condition MakeDecision clock max_spins max_duration (c, st)"
    and ok: "\<not> spin_throws MakeDecision clock (c, st)"
  shows "\<exists>c2 st2. RunSession_body MakeDecision clock max_spins max_duration (c, st) = Inr (c2, st2) \<and>
           window_size (config' (machine' c2)) \<noteq> 0 \<and> active' (player' c2) \<and>
           length (spin_history' c2) = length (spin_history' c) + 1"
proof -
  obtain decision p1 where d: "decision_at MakeDecision c = (decision, p1)"
    by (cases "decision_at MakeDecision c")
  note kp = keeps_account_decision [OF keep d]
  let ?c1 = "c\<lparr>player' := p1\<rparr>"
  let ?spin = "Spin (machine' c) (decision_bet_amount decision) (in_free_spins' c)
                 (free_spins_remaining' c) (spin_clock clock (length (spin_history' c)))"
  have "\<exists>res m1. ?spin = Inr (res, m1)"
  proof (cases ?spin)
    case (Inl e)
    with ok d have "e = DivisionByZero"
      by (simp add: spin_throws_def Let_def)
    with Inl Spin_traps_at_zero_window [of "machine' c"] window show ?thesis
      by simp
  next
    case (Inr a)
    then show ?thesis by (cases a) simp
  qed
  then obtain res m1 where sp: "?spin = Inr (res, m1)" by blast
  from Spin_keeps_config [OF sp] window have w1: "window_size (config' m1) \<noteq> 0"
    by simp
  from sp have "Spin (machine' ?c1) (decision_bet_amount decision) (in_free_spins' ?c1)
                  (free_spins_remaining' ?c1) (spin_clock clock (length (spin_history' ?c1)))
                = Inr (res, m1)"
    by simp
  from ExecuteSpin_of_result [OF this, of st]
  obtain c2 st2 where ex: "ExecuteSpin clock ?c1 (decision_bet_amount decision) st = Inr (c2, st2)"
    and props: "machine' c2 = m1" "active' (player' c2) = active' (player' ?c1)"
      "length (spin_history' c2) = length (spin_history' ?c1) + 1"
    by blast
  from not_stop_condition [OF act keep d go] ex have
    "RunSession_body MakeDecision clock max_spins max_duration (c, st) = Inr (c2, st2)"
    by simp
  with props kp act w1 show ?thesis by simp
qed

lemma RunSession_body_throws:
  assumes act: "active' (player' c)"
    and keep: "keeps_account MakeDecision"
    and go: "\<not> stop_condition MakeDecision clock max_spins max_duration (c, st)"
    and throw: "spin_throws MakeDecision clock (c, st)"
  shows "\<exists>c1. RunSession_body MakeDecision clock max_spins max_duration (c, st) = Inl (c1, st) \<and>
              spin_history' c1 = spin_history' c \<and>
              balance' (player' c1)
                = balance' (player' c) - decision_bet_amount (fst (decision_at MakeDecision c))"
proof -
  obtain decision p1 where d: "decision_at MakeDecision c = (decision, p1)"
    by (cases "decision_at MakeDecision c")
  note kp = keeps_account_decision [OF keep d]
  let ?c1 = "c\<lparr>player' := p1\<rparr>"
  from throw d obtain e where
    "Spin (machine' c) (decision_bet_amount decision) (in_free_spins' c)
       (free_spins_remaining' c) (spin_clock clock (length (spin_history' c))) = Inl e"
    by (auto simp: spin_throws_def Let_def split: sum.splits)
  then have "Spin (machine' ?c1) (decision_bet_amount decision) (in_free_spins' ?c1)
                  (free_spins_remaining' ?c1) (spin_clock clock (length (spin_history' ?c1)))
                = Inl e"
    by simp
  from ExecuteSpin_of_exception [OF this, of st]
  have ex: "ExecuteSpin clock ?c1 (decision_bet_amount decision) st
              = Inl (e, ?c1\<lparr>player' := UpdateBalance (player' ?c1) (- decision_bet_amount decision)\<rparr>)" .
  from not_stop_condition [OF act keep d go] ex have
    "RunSession_body MakeDecision clock max_spins max_duration (c, st)
       = Inl (?c1\<lparr>player' := UpdateBalance (player' ?c1) (- decision_bet_amount decision)\<rparr>, st)"
    by simp
  with d kp show ?thesis
    by (simp add: UpdateBalance_def)
qed


lemma RunSession_body_decreases:
  assumes "RunSession_body MakeDecision clock max_spins max_duration (c, st) = Inr (c2, st2)"
  shows "total_spins st < max_spins \<and> total_spins st2 = total_spins st + 1"
  using assms
  by (auto simp: RunSession_body_def CheckSessionLimits_def ExecuteSpin_def
      UpdateSessionStats_def Let_def split: if_splits prod.splits sum.splits)

lemma stop_condition_spin_cap:
  "max_spins \<le> total_spins (snd s) \<Longrightarrow> stop_condition MakeDecision clock max_spins max_duration s"
  by (simp add: stop_condition_def Let_def)

text \<open>
  Claim C5, with the exception that the session catches. With a player whose active flag
  is set and whose decisions leave balance and active flag to the base class, on a machine
  whose configured window is not zero: the session loop executes exactly \<open>n\<close> spins,
  where \<open>n\<close> is the first pass at which one of the listed conditions holds before the
  spin (the decision says stop, its bet is not positive, not offered, or above the
  balance, or a cap is reached) or at which the machine's spin throws. Neither holds at
  the earlier passes, and the record and the spin history the loop returns are those of
  that moment: no spin follows. The balance is that of the moment when a listed condition
  ended the loop, and that balance less the bet when the exception did.
\<close>

theorem session_ends_at_first_condition_or_exception:
  assumes "window_size (config' (machine' (fst s))) \<noteq> 0"
    and "active' (player' (fst s))"
    and "keeps_account MakeDecision"
  shows "\<exists>n. (\<forall>k<n. \<not> stop_condition MakeDecision clock max_spins max_duration
                        (after_spins MakeDecision clock max_spins max_duration k s) \<and>
                    \<not> spin_throws MakeDecision clock
                        (after_spins MakeDecision clock max_spins max_duration k s)) \<and>
             (stop_condition MakeDecision clock max_spins max_duration
                (after_spins MakeDecision clock max_spins max_duration n s) \<or>
              spin_throws MakeDecision clock
                (after_spins MakeDecision clock max_spins max_duration n s)) \<and>
             snd (RunSession_loop MakeDecision clock max_spins max_duration s)
               = snd (after_spins MakeDecision clock max_spins max_duration n s) \<and>
             spin_history' (fst (RunSession_loop MakeDecision clock max_spins max_duration s))
               = spin_history' (fst (after_spins MakeDecision clock max_spins max_duration n s)) \<and>
             length (spin_history' (fst (RunSession_loop MakeDecision clock max_spins max_duration s)))
               = length (spin_history' (fst s)) + n \<and>
             balance' (player' (fst (RunSession_loop MakeDecision clock max_spins max_duration s)))
               = (if stop_condition MakeDecision clock max_spins max_duration
                       (after_spins MakeDecision clock max_spins max_duration n s)
                  then balance' (player' (fst (after_spins MakeDecision clock max_spins max_duration n s)))
                  else balance' (player' (fst (after_spins MakeDecision clock max_spins max_duration n s)))
                       - decision_bet_amount
                           (fst (decision_at MakeDecision
                                   (fst (after_spins MakeDecision clock max_spins max_duration n s)))))"
  using assms
proof (induction "nat (max_spins - total_spins (snd s))" arbitrary: s rule: less_induct)
  case less
  obtain c st where s: "s = (c, st)" by (cases s)
  let ?stop = "stop_condition MakeDecision clock max_spins max_duration"
  let ?throws = "spin_throws MakeDecision clock"
  let ?after = "after_spins MakeDecision clock max_spins max_duration"
  let ?loop = "RunSession_loop MakeDecision clock max_spins max_duration"
  let ?bet = "\<lambda>s. decision_bet_amount (fst (decision_at MakeDecision (fst s)))"
  let ?bal = "\<lambda>s. balance' (player' (fst s))"
  note keep = less.prems(3)
  from less.prems(1,2) s have window: "window_size (config' (machine' c)) \<noteq> 0"
    and act: "active' (player' c)"
    by simp_all
  show ?case
  proof (cases "?stop s \<or> ?throws s")
    case True
    have "\<exists>c1. RunSession_body MakeDecision clock max_spins max_duration s = Inl (c1, st) \<and>
                spin_history' c1 = spin_history' c \<and>
                balance' (player' c1) = (if ?stop s then ?bal s else ?bal s - ?bet s)"
    proof (cases "?stop s")
      case True
      with s have "?stop (c, st)" by simp
      from RunSession_body_stops_account [OF keep this] obtain c1 where
        "RunSession_body MakeDecision clock max_spins max_duration (c, st) = Inl (c1, st)"
        "spin_history' c1 = spin_history' c"
        "balance' (player' c1) = balance' (player' c)"
        by blast
      with True s show ?thesis by simp
    next
      case False
      with True s have "\<not> ?stop (c, st)" "?throws (c, st)" by simp_all
      from RunSession_body_throws [OF act keep this] obtain c1 where
        "RunSession_body MakeDecision clock max_spins max_duration (c, st) = Inl (c1, st)"
        "spin_history' c1 = spin_history' c"
        "balance' (player' c1)
           = balance' (player' c) - decision_bet_amount (fst (decision_at MakeDecision c))"
        by blast
      with False s show ?thesis by simp
    qed
    then obtain c1 where
      b: "RunSession_body MakeDecision clock max_spins max_duration s = Inl (c1, st)"
      and h: "spin_history' c1 = spin_history' c"
      and bal: "balance' (player' c1) = (if ?stop s then ?bal s else ?bal s - ?bet s)"
      by blast
    from b have "?loop s = (c1, st)"
      by (simp add: RunSession_loop.simps [of MakeDecision clock max_spins max_duration s])
    with True s h bal have
      "(\<forall>k<0. \<not> ?stop (?after k s) \<and> \<not> ?throws (?after k s)) \<and>
       (?stop (?after 0 s) \<or> ?throws (?after 0 s)) \<and>
       snd (?loop s) = snd (?after 0 s) \<and>
       spin_history' (fst (?loop s)) = spin_history' (fst (?after 0 s)) \<and>
       length (spin_history' (fst (?loop s))) = length (spin_history' (fst s)) + 0 \<and>
       ?bal (?loop s) = (if ?stop (?after 0 s) then ?bal (?after 0 s)
                         else ?bal (?after 0 s) - ?bet (?after 0 s))"
      by simp
    then show ?thesis by blast
  next
    case False
    with s have "\<not> ?stop (c, st)" "\<not> ?throws (c, st)" by simp_all
    from RunSession_body_spins [OF act keep window this] s
    obtain c2 st2 where
      b: "RunSession_body MakeDecision clock max_spins max_duration s = Inr (c2, st2)"
      and inv: "window_size (config' (machine' c2)) \<noteq> 0" "active' (player' c2)"
      and len: "length (spin_history' c2) = length (spin_history' c) + 1"
      by auto
    from b s have "RunSession_body MakeDecision clock max_spins max_duration (c, st) = Inr (c2, st2)"
      by simp
    from RunSession_body_decreases [OF this] s have
      "nat (max_spins - total_spins (snd (c2, st2))) < nat (max_spins - total_spins (snd s))"
      by simp
    from less.hyps [OF this] inv keep obtain n where
      n: "\<forall>k<n. \<not> ?stop (?after k (c2, st2)) \<and> \<not> ?throws (?after k (c2, st2))"
        "?stop (?after n (c2, st2)) \<or> ?throws (?after n (c2, st2))"
        "snd (?loop (c2, st2)) = snd (?after n (c2, st2))"
        "spin_history' (fst (?loop (c2, st2))) = spin_history' (fst (?after n (c2, st2)))"
        "length (spin_history' (fst (?loop (c2, st2)))) = length (spin_history' c2) + n"
        "?bal (?loop (c2, st2)) = (if ?stop (?after n (c2, st2)) then ?bal (?after n (c2, st2))
                                   else ?bal (?after n (c2, st2)) - ?bet (?after n (c2, st2)))"
      by auto
    from b have loop: "?loop s = ?loop (c2, st2)"
      by (simp add: RunSession_loop.simps [of MakeDecision clock max_spins max_duration s])
    from b have after: "\<And>k. ?after (Suc k) s = ?after k (c2, st2)"
      by simp
    have "\<forall>k<Suc n. \<not> ?stop (?after k s) \<and> \<not> ?throws (?after k s)"
    proof (intro allI impI)
      fix k assume "k < Suc n"
      show "\<not> ?stop (?after k s) \<and> \<not> ?throws (?after k s)"
      proof (cases k)
        case 0
        with False show ?thesis by simp
      next
        case (Suc j)
        with \<open>k < Suc n\<close> n(1) after show ?thesis by simp
      qed
    qed
    moreover have "?stop (?after (Suc n) s) \<or> ?throws (?after (Suc n) s)"
      using n(2) after by simp
    moreover have "snd (?loop s) = snd (?after (Suc n) s)"
      using n(3) loop after by simp
    moreover have "spin_history' (fst (?loop s)) = spin_history' (fst (?after (Suc n) s))"
      using n(4) loop after by simp
    moreover have "length (spin_history' (fst (?loop s))) = length (spin_history' (fst s)) + Suc n"
      using n(5) loop len s by simp
    moreover have "?bal (?loop s) = (if ?stop (?after (Suc n) s) then ?bal (?after (Suc n) s)
                                     else ?bal (?after (Suc n) s) - ?bet (?after (Suc n) s))"
      using n(6) loop after by simp
    ultimately show ?thesis by blast
  qed
qed

lemma ready_machine_never_throws:
  assumes "machine_ready (machine' (fst s))"
  shows "\<not> spin_throws MakeDecision clock s"
proof -
  from Spin_returns [OF assms] obtain res m1 where
    "Spin (machine' (fst s)) (decision_bet_amount (fst (decision_at MakeDecision (fst s))))
       (in_free_spins' (fst s)) (free_spins_remaining' (fst s))
       (spin_clock clock (length (spin_history' (fst s)))) = Inr (res, m1)"
    by blast
  then show ?thesis
    by (simp add: spin_throws_def Let_def)
qed

section \<open>A concrete session\<close>

lemma GenerateGrid_steady:
  "GenerateGrid \<lparr>reels' = [[1], [1], [1], [2], [3]], window_size' = 1\<rparr> g
     = Inr ([1, 1, 1, 2, 3], rng_next (rng_next (rng_next (rng_next (rng_next g)))))"
  by (simp add: GenerateGrid_def GetSymbolsAtPosition_def uniform_position_def)

lemma win_steady: "CalculateTotalWin half_pay_table [1, 1, 1, 2, 3] 2 1 = 1"
  by (simp add: CalculateTotalWin_def half_pay_table_def CalculatePaylineWin_def
      GetPaylineSymbols_def CountConsecutiveSymbols_def base_symbol_def to_string_1 GetPayout_def)

lemma Spin_steady:
  assumes "config' m = example_config\<lparr>window_size := 1\<rparr>"
    and "machine_pay_table m = half_pay_table"
    and "reel_sets' m = steady_reels"
  shows "Spin m 2 False r 0 =
           Inr (losing_spin 0,
                m\<lparr>machine_rng := rng_next (rng_next (rng_next (rng_next (rng_next (machine_rng m)))))\<rparr>)"
proof -
  let ?m1 = "m\<lparr>machine_rng := rng_next (rng_next (rng_next (rng_next (rng_next (machine_rng m)))))\<rparr>"
  have gs: "GenerateSpinGrid m ''normal'' = Inr ([1, 1, 1, 2, 3], ?m1)"
    using assms(3) by (simp add: GenerateSpinGrid_def GenerateGrid_steady steady_reels_def)
  have tr: "CheckFreeSpinsTrigger ?m1 [1, 1, 1, 2, 3] = Inr False"
    using assms(1)
    by (simp add: CheckFreeSpinsTrigger_def column_has_scatter_def example_config_def upt_0_5)
  have win: "CalculateWinAmount ?m1 [1, 1, 1, 2, 3] 2 (active_lines (config' m)) = 1"
    using assms(1,2) win_steady by (simp add: CalculateWinAmount_def example_config_def)
  from assms(3) have n: "reel_sets' m ''normal'' \<noteq> None"
    by (simp add: steady_reels_def)
  show ?thesis
    by (simp add: Spin_def gs tr win n Let_def losing_spin_def)
qed

lemma v1_constant_decision:
  assumes "model_loader' p = v1_models" and "\<not> is_first_bet' p" and "2 \<le> balance' p"
    and "available_bets sd = [1, 2, 5]"
  shows "V1Player_MakeDecision p machine sd =
           (make_PlayerDecision 2 (0.1 + (1.0 - 0.1) * (real (player_rng p 0 mod 2 ^ 64) / 2 ^ 64)),
            p\<lparr>player_rng := rng_next (player_rng p)\<rparr>)"
proof -
  from assms have "DecideBetAmount p sd = (2, p)"
    by (simp add: DecideBetAmount_def PredictBetAmount_def v1_models_def BasePlayer_IsValidBet_def)
  with assms(2) show ?thesis
    by (simp add: V1Player_MakeDecision_def DecideDelayTime_def GetRandomDelay_def)
qed

lemma steady_body:
  assumes sh: "steady_session c" and bal: "2 \<le> balance' (player' c)"
    and cap: "total_spins st < 2"
  shows "\<exists>c2. RunSession_body V1Player_MakeDecision example_clock 2 300 (c, st)
                = Inr (c2, UpdateSessionStats st (losing_spin (int (length (spin_history' c)) + 1))) \<and>
              steady_session c2 \<and>
              balance' (player' c2) = balance' (player' c) - 1 \<and>
              spin_history' c2
                = spin_history' c @ [losing_spin (int (length (spin_history' c)) + 1)]"
proof -
  let ?sd = "PrepareSessionData c"
  let ?p1 = "(player' c)\<lparr>player_rng := rng_next (player_rng (player' c))\<rparr>"
  let ?c1 = "c\<lparr>player' := ?p1\<rparr>"
  let ?m1 = "(machine' c)\<lparr>machine_rng :=
               rng_next (rng_next (rng_next (rng_next (rng_next (machine_rng (machine' c))))))\<rparr>"
  from sh have bets: "available_bets ?sd = [1, 2, 5]"
    by (simp add: steady_session_def PrepareSessionData_def GetBetOptions_def GetCurrency_def
        example_config_def example_player_config_def Let_def)
  from sh bal bets have dec:
    "V1Player_MakeDecision (player' c) (machine_id (config' (machine' c))) ?sd =
       (make_PlayerDecision 2
          (0.1 + (1.0 - 0.1) * (real (player_rng (player' c) 0 mod 2 ^ 64) / 2 ^ 64)), ?p1)"
    by (intro v1_constant_decision) (simp_all add: steady_session_def)
  from sh have spin: "Spin (machine' ?c1) 2 (in_free_spins' ?c1) (free_spins_remaining' ?c1)
                        (spin_clock example_clock (length (spin_history' ?c1)))
                      = Inr (losing_spin 0, ?m1)"
    using Spin_steady [of "machine' c" "free_spins_remaining' c"]
    by (simp add: steady_session_def example_clock_def)
  let ?c2 = "?c1\<lparr>machine' := ?m1,
                  player' := UpdateBalance (UpdateBalance ?p1 (- 2)) 1,
                  spin_history' := spin_history' c @ [losing_spin (int (length (spin_history' c)) + 1)]\<rparr>"
  from sh spin have ex: "ExecuteSpin example_clock ?c1 2 st
              = Inr (?c2, UpdateSessionStats st (losing_spin (int (length (spin_history' c)) + 1)))"
    by (simp add: ExecuteSpin_def Let_def losing_spin_def steady_session_def)
  from sh bal have act: "IsActive (player' c)"
    by (simp add: IsActive_def steady_session_def)
  from cap have lim: "\<not> CheckSessionLimits example_clock c st 2 300"
    by (simp add: CheckSessionLimits_def example_clock_def)
  from sh have valid: "IsValidBet (machine' c) 2 (GetCurrency ?p1)"
    by (simp add: IsValidBet_def GetBetOptions_def GetCurrency_def steady_session_def
        example_config_def example_player_config_def)
  from bal have afford: "\<not> 2 > GetBalance ?p1"
    by (simp add: GetBalance_def)
  have "RunSession_body V1Player_MakeDecision example_clock 2 300 (c, st)
          = Inr (?c2, UpdateSessionStats st (losing_spin (int (length (spin_history' c)) + 1)))"
    using act lim valid afford ex
    by (simp add: RunSession_body_def dec make_PlayerDecision_def Let_def)
  moreover from sh have "steady_session ?c2"
    by (simp add: steady_session_def UpdateBalance_def)
  moreover have "balance' (player' ?c2) = balance' (player' c) - 1"
    by (simp add: UpdateBalance_def)
  ultimately show ?thesis
    by (intro exI [of _ ?c2]) simp
qed

lemma steady_cap:
  assumes "total_spins st = 2"
  shows "RunSession_body V1Player_MakeDecision example_clock 2 300 (c, st) = Inl (c, st)"
  using assms by (simp add: RunSession_body_def CheckSessionLimits_def)

lemma steady_session_start: "steady_session example_controller"
  by (simp add: steady_session_def example_controller_def steady_machine_def v1_player_def)

lemma steady_loop:
  assumes "total_spins st0 = 0"
  shows "\<exists>c2. RunSession_loop V1Player_MakeDecision example_clock 2 300 (example_controller, st0)
                = (c2, UpdateSessionStats (UpdateSessionStats st0 (losing_spin 1)) (losing_spin 2)) \<and>
              spin_history' c2 = [losing_spin 1, losing_spin 2] \<and>
              balance' (player' c2) = 98"
proof -
  let ?st1 = "UpdateSessionStats st0 (losing_spin 1)"
  let ?st2 = "UpdateSessionStats ?st1 (losing_spin 2)"
  have b0: "2 \<le> balance' (player' example_controller)"
    and h0: "spin_history' example_controller = []"
    by (simp_all add: example_controller_def v1_player_def)
  from steady_body [OF steady_session_start b0, of st0] assms h0
  obtain c1 where
    s1: "RunSession_body V1Player_MakeDecision example_clock 2 300 (example_controller, st0)
           = Inr (c1, ?st1)"
    and sh1: "steady_session c1"
    and b1: "balance' (player' c1) = balance' (player' example_controller) - 1"
    and h1: "spin_history' c1 = [losing_spin 1]"
    by auto
  from assms have t1: "total_spins ?st1 = 1"
    by (simp add: UpdateSessionStats_def Let_def)
  from b1 have b1': "2 \<le> balance' (player' c1)" "balance' (player' c1) = 99"
    by (simp_all add: example_controller_def v1_player_def)
  from steady_body [OF sh1 b1'(1), of ?st1] t1 h1
  obtain c2 where
    s2: "RunSession_body V1Player_MakeDecision example_clock 2 300 (c1, ?st1) = Inr (c2, ?st2)"
    and b2: "balance' (player' c2) = balance' (player' c1) - 1"
    and h2: "spin_history' c2 = [losing_spin 1, losing_spin 2]"
    by auto
  from t1 have t2: "total_spins ?st2 = 2"
    by (simp add: UpdateSessionStats_def Let_def)
  have "RunSession_loop V1Player_MakeDecision example_clock 2 300 (example_controller, st0)
          = RunSession_loop V1Player_MakeDecision example_clock 2 300 (c1, ?st1)"
    using s1
    by (simp add: RunSession_loop.simps
        [of V1Player_MakeDecision example_clock 2 300 "(example_controller, st0)"])
  also have "\<dots> = RunSession_loop V1Player_MakeDecision example_clock 2 300 (c2, ?st2)"
    using s2
    by (simp add: RunSession_loop.simps [of V1Player_MakeDecision example_clock 2 300 "(c1, ?st1)"])
  also have "\<dots> = (c2, ?st2)"
    using steady_cap [OF t2, of c2]
    by (simp add: RunSession_loop.simps [of V1Player_MakeDecision example_clock 2 300 "(c2, ?st2)"])
  finally show ?thesis
    using h2 b2 b1'(2) by simp
qed

lemma RunSession_steady:
  "\<exists>st c2. RunSession V1Player_MakeDecision example_clock example_controller ''s1'' 2 300
              = Inr (st, c2) \<and>
           map profit (spin_history' c2) = [- 1, - 1] \<and>
           total_spins st = 2 \<and> total_bet st = 4 \<and> total_win st = 2 \<and> rtp st = 1 / 2 \<and>
           max_loss_streak st = - 1 \<and> final_balance st = 98 \<and> total_profit st = - 2"
proof -
  let ?st0 = "default_SessionStats
                \<lparr>session_id := ''s1'',
                 stats_player_id := player_id (player_config (player' example_controller)),
                 stats_machine_id := machine_id (config' (machine' example_controller)),
                 initial_balance := GetBalance (player' example_controller),
                 final_balance := GetBalance (player' example_controller)\<rparr>"
  have c0: "example_controller\<lparr>spin_history' := []\<rparr> = example_controller"
    by (simp add: example_controller_def)
  have t0: "total_spins ?st0 = 0"
    by (simp add: default_SessionStats_def)
  from steady_loop [OF t0] obtain c2 where
    loop: "RunSession_loop V1Player_MakeDecision example_clock 2 300 (example_controller, ?st0)
             = (c2, UpdateSessionStats (UpdateSessionStats ?st0 (losing_spin 1)) (losing_spin 2))"
    and h: "spin_history' c2 = [losing_spin 1, losing_spin 2]"
    and b: "balance' (player' c2) = 98"
    by blast
  have init: "balance' (player' example_controller) = 100"
    by (simp add: example_controller_def v1_player_def)
  show ?thesis
    using h b
    by (simp only: RunSession_def c0 loop Let_def)
       (simp add: UpdateSessionStats_def losing_spin_def default_SessionStats_def
          GetBalance_def init example_clock_def)
qed


section \<open>The session record\<close>

lemma UpdateSessionStats_fields:
  "rtp (UpdateSessionStats st spin) = rtp st"
  "total_spins (UpdateSessionStats st spin) = total_spins st + 1"
  "max_loss_streak (UpdateSessionStats st spin) =
     (if profit spin < 0 then min (max_loss_streak st) (profit spin) else max_loss_streak st)"
  "initial_balance (UpdateSessionStats st spin) = initial_balance st"
  by (simp_all add: UpdateSessionStats_def Let_def)

lemma V1Player_keeps_account: "keeps_account V1Player_MakeDecision"
  by (simp add: keeps_account_def V1Player_MakeDecision_def DecideBetAmount_def
      DecideDelayTime_def GetRandomDelay_def GetRandomBet_def Let_def case_prod_beta)

lemma RandomPlayer_keeps_account: "keeps_account RandomPlayer_MakeDecision"
  by (simp add: keeps_account_def RandomPlayer_MakeDecision_def ShouldEndSession_def
      GetRandomBet_def GetRandomDelay_def Let_def case_prod_beta)

text \<open>
  Claim C8. Every session that starts (the spin cap is not negative) returns a record
  whose rtp field is \<open>total_win / total_bet\<close> when \<open>total_bet\<close> is positive and 0
  otherwise; a session without spins has \<open>total_bet = 0\<close> and rtp 0.
\<close>

theorem session_rtp:
  assumes "0 \<le> max_spins"
  shows "\<exists>st c1. RunSession MakeDecision clock c sid max_spins max_duration = Inr (st, c1) \<and>
           rtp st = (if 0 < total_bet st then total_win st / total_bet st else 0) \<and>
           (total_spins st = 0 \<longrightarrow> total_bet st = 0 \<and> rtp st = 0)"
proof -
  let ?st0 = "default_SessionStats
                \<lparr>session_id := sid,
                 stats_player_id := player_id (player_config (player' c)),
                 stats_machine_id := machine_id (config' (machine' c)),
                 initial_balance := GetBalance (player' c),
                 final_balance := GetBalance (player' c)\<rparr>"
  let ?P = "\<lambda>s. rtp (snd s) = 0 \<and> 0 \<le> total_spins (snd s) \<and>
                 (total_spins (snd s) = 0 \<longrightarrow> total_bet (snd s) = 0)"
  obtain c1 st1 where
    loop: "RunSession_loop MakeDecision clock max_spins max_duration (c\<lparr>spin_history' := []\<rparr>, ?st0)
             = (c1, st1)"
    by (cases "RunSession_loop MakeDecision clock max_spins max_duration
                 (c\<lparr>spin_history' := []\<rparr>, ?st0)")
  have "?P (RunSession_loop MakeDecision clock max_spins max_duration
              (c\<lparr>spin_history' := []\<rparr>, ?st0))"
  proof (rule RunSession_loop_invariant [where P = ?P])
    show "?P (c\<lparr>spin_history' := []\<rparr>, ?st0)"
      by (simp add: default_SessionStats_def)
  next
    fix s s1
    assume "?P s" and b: "RunSession_body MakeDecision clock max_spins max_duration s = Inr s1"
    obtain c st where s: "s = (c, st)" by (cases s)
    obtain c2 st2 where s1: "s1 = (c2, st2)" by (cases s1)
    from b s s1 RunSession_body_Inr [of MakeDecision clock max_spins max_duration c st c2 st2]
    obtain spin where "st2 = UpdateSessionStats st spin" by auto
    with \<open>?P s\<close> s s1 show "?P s1"
      by (simp add: UpdateSessionStats_fields)
  next
    fix s s1
    assume "?P s" and b: "RunSession_body MakeDecision clock max_spins max_duration s = Inl s1"
    obtain c st where s: "s = (c, st)" by (cases s)
    obtain c2 st2 where s1: "s1 = (c2, st2)" by (cases s1)
    from b s s1 RunSession_body_Inl [of MakeDecision clock max_spins max_duration c st c2 st2]
    have "st2 = st" by simp
    with \<open>?P s\<close> s s1 show "?P s1" by simp
  qed
  with loop have inv: "rtp st1 = 0" "total_spins st1 = 0 \<longrightarrow> total_bet st1 = 0"
    by simp_all
  from assms have "\<not> min max_spins 10000 < 0" by simp
  with loop inv show ?thesis
    by (auto simp: RunSession_def Let_def)
qed

text \<open>The two-spin session: total bet 4, total win 2, rtp 1/2.\<close>

theorem session_rtp_witness:
  "(0::int) \<le> 2 \<and>
   (case RunSession V1Player_MakeDecision example_clock example_controller ''s1'' 2 300 of
      Inl e \<Rightarrow> False
    | Inr (st, c1) \<Rightarrow>
        total_bet st = 4 \<and> total_win st = 2 \<and> rtp st = 1 / 2 \<and>
        rtp st = (if 0 < total_bet st then total_win st / total_bet st else 0))"
proof -
  from RunSession_steady obtain st c2 where
    run: "RunSession V1Player_MakeDecision example_clock example_controller ''s1'' 2 300
            = Inr (st, c2)"
    and vals: "total_bet st = 4" "total_win st = 2" "rtp st = 1 / 2"
    by (elim exE conjE) (rule that, assumption+)
  from session_rtp [of 2 V1Player_MakeDecision example_clock example_controller "''s1''" 300] run
  have "rtp st = (if 0 < total_bet st then total_win st / total_bet st else 0)"
    by simp
  with run vals show ?thesis by simp
qed

text \<open>
  Claim C10. Every session that starts returns a record whose \<open>max_loss_streak\<close> field is
  the minimum of 0 and the profits of the single spins of the session: the most negative
  profit of one spin, or 0 when no spin lost. Losses of consecutive spins are not added up.
\<close>

theorem session_max_loss_streak:
  assumes "0 \<le> max_spins"
  shows "\<exists>st c1. RunSession MakeDecision clock c sid max_spins max_duration = Inr (st, c1) \<and>
           total_spins st = int (length (spin_history' c1)) \<and>
           max_loss_streak st = Min (insert 0 (profit ` set (spin_history' c1)))"
proof -
  let ?st0 = "default_SessionStats
                \<lparr>session_id := sid,
                 stats_player_id := player_id (player_config (player' c)),
                 stats_machine_id := machine_id (config' (machine' c)),
                 initial_balance := GetBalance (player' c),
                 final_balance := GetBalance (player' c)\<rparr>"
  let ?P = "\<lambda>s. total_spins (snd s) = int (length (spin_history' (fst s))) \<and>
                 max_loss_streak (snd s) = Min (insert 0 (profit ` set (spin_history' (fst s))))"
  obtain c1 st1 where
    loop: "RunSession_loop MakeDecision clock max_spins max_duration (c\<lparr>spin_history' := []\<rparr>, ?st0)
             = (c1, st1)"
    by (cases "RunSession_loop MakeDecision clock max_spins max_duration
                 (c\<lparr>spin_history' := []\<rparr>, ?st0)")
  have "?P (RunSession_loop MakeDecision clock max_spins max_duration
              (c\<lparr>spin_history' := []\<rparr>, ?st0))"
  proof (rule RunSession_loop_invariant [where P = ?P])
    show "?P (c\<lparr>spin_history' := []\<rparr>, ?st0)"
      by (simp add: default_SessionStats_def)
  next
    fix s s1
    assume P: "?P s" and b: "RunSession_body MakeDecision clock max_spins max_duration s = Inr s1"
    obtain c st where s: "s = (c, st)" by (cases s)
    obtain c2 st2 where s1: "s1 = (c2, st2)" by (cases s1)
    from b s s1 RunSession_body_Inr [of MakeDecision clock max_spins max_duration c st c2 st2]
    obtain spin where sp: "spin_history' c2 = spin_history' c @ [spin]"
      "st2 = UpdateSessionStats st spin" by auto
    define M where "M = Min (insert 0 (profit ` set (spin_history' c)))"
    have le: "M \<le> 0"
      unfolding M_def by (rule Min_le) simp_all
    have "insert 0 (profit ` set (spin_history' c2))
            = insert (profit spin) (insert 0 (profit ` set (spin_history' c)))"
      using sp(1) by auto
    moreover have "Min (insert (profit spin) (insert 0 (profit ` set (spin_history' c))))
                     = min (profit spin) M"
      unfolding M_def by (rule Min_insert) simp_all
    ultimately have new: "Min (insert 0 (profit ` set (spin_history' c2))) = min (profit spin) M"
      by simp
    from P s have old: "max_loss_streak st = M" "total_spins st = int (length (spin_history' c))"
      by (simp_all add: M_def)
    from sp(2) old(1) have "max_loss_streak st2 = (if profit spin < 0 then min M (profit spin) else M)"
      by (simp add: UpdateSessionStats_fields)
    also have "\<dots> = min (profit spin) M"
      using le by (simp add: min_def)
    finally have "max_loss_streak st2 = Min (insert 0 (profit ` set (spin_history' c2)))"
      using new by simp
    moreover from sp old(2) have "total_spins st2 = int (length (spin_history' c2))"
      by (simp add: UpdateSessionStats_fields)
    ultimately show "?P s1"
      using s1 by simp
  next
    fix s s1
    assume "?P s" and b: "RunSession_body MakeDecision clock max_spins max_duration s = Inl s1"
    obtain c st where s: "s = (c, st)" by (cases s)
    obtain c2 st2 where s1: "s1 = (c2, st2)" by (cases s1)
    from b s s1 RunSession_body_Inl [of MakeDecision clock max_spins max_duration c st c2 st2]
    have "st2 = st" "spin_history' c2 = spin_history' c" by simp_all
    with \<open>?P s\<close> s s1 show "?P s1" by simp
  qed
  with loop have inv: "total_spins st1 = int (length (spin_history' c1))"
    "max_loss_streak st1 = Min (insert 0 (profit ` set (spin_history' c1)))"
    by simp_all
  from assms have "\<not> min max_spins 10000 < 0" by simp
  with loop inv show ?thesis
    by (simp add: RunSession_def Let_def)
qed

text \<open>The two-spin session: two spins in a row lose 1 each; the field is -1, not -2.\<close>

theorem session_max_loss_streak_witness:
  "(0::int) \<le> 2 \<and>
   (case RunSession V1Player_MakeDecision example_clock example_controller ''s1'' 2 300 of
      Inl e \<Rightarrow> False
    | Inr (st, c1) \<Rightarrow>
        map profit (spin_history' c1) = [- 1, - 1] \<and> max_loss_streak st = - 1 \<and>
        max_loss_streak st = Min (insert 0 (profit ` set (spin_history' c1))))"
proof -
  from RunSession_steady obtain st c2 where
    run: "RunSession V1Player_MakeDecision example_clock example_controller ''s1'' 2 300
            = Inr (st, c2)"
    and vals: "map profit (spin_history' c2) = [- 1, - 1]" "max_loss_streak st = - 1"
    by (elim exE conjE) (rule that, assumption+)
  from session_max_loss_streak
         [of 2 V1Player_MakeDecision example_clock example_controller "''s1''" 300] run
  have "max_loss_streak st = Min (insert 0 (profit ` set (spin_history' c2)))"
    by simp
  with run vals show ?thesis by simp
qed

subsection \<open>The end of the loop on concrete sessions\<close>

text \<open>
  The two-spin session: neither a listed condition nor an exception before the first and
  the second spin, the spin cap holds before a third, and the loop returns with two spins
  in its history.
\<close>

theorem session_ends_at_first_condition_or_exception_witness:
  "window_size (config' (machine' (fst (example_controller, default_SessionStats)))) \<noteq> 0 \<and>
   active' (player' (fst (example_controller, default_SessionStats))) \<and>
   keeps_account V1Player_MakeDecision \<and>
   \<not> stop_condition V1Player_MakeDecision example_clock 2 300
       (after_spins V1Player_MakeDecision example_clock 2 300 0
          (example_controller, default_SessionStats)) \<and>
   \<not> spin_throws V1Player_MakeDecision example_clock
       (after_spins V1Player_MakeDecision example_clock 2 300 0
          (example_controller, default_SessionStats)) \<and>
   \<not> stop_condition V1Player_MakeDecision example_clock 2 300
       (after_spins V1Player_MakeDecision example_clock 2 300 1
          (example_controller, default_SessionStats)) \<and>
   \<not> spin_throws V1Player_MakeDecision example_clock
       (after_spins V1Player_MakeDecision example_clock 2 300 1
          (example_controller, default_SessionStats)) \<and>
   stop_condition V1Player_MakeDecision example_clock 2 300
     (after_spins V1Player_MakeDecision example_clock 2 300 2
        (example_controller, default_SessionStats)) \<and>
   length (spin_history'
             (fst (RunSession_loop V1Player_MakeDecision example_clock 2 300
                     (example_controller, default_SessionStats)))) = 2"
proof -
  let ?s0 = "(example_controller, default_SessionStats)"
  let ?stop = "stop_condition V1Player_MakeDecision example_clock 2 300"
  let ?throws = "spin_throws V1Player_MakeDecision example_clock"
  let ?after = "after_spins V1Player_MakeDecision example_clock 2 300"
  let ?loop = "RunSession_loop V1Player_MakeDecision example_clock 2 300"
  have window: "window_size (config' (machine' (fst ?s0))) \<noteq> 0"
    by (simp add: example_controller_def steady_machine_def example_config_def)
  have act: "active' (player' (fst ?s0))"
    by (simp add: example_controller_def v1_player_def)
  from session_ends_at_first_condition_or_exception [OF window act V1Player_keeps_account,
      of example_clock 2 300]
  obtain n where
    before: "\<forall>k<n. \<not> ?stop (?after k ?s0) \<and> \<not> ?throws (?after k ?s0)"
    and stats: "snd (?loop ?s0) = snd (?after n ?s0)"
    and len: "length (spin_history' (fst (?loop ?s0))) = length (spin_history' (fst ?s0)) + n"
    by blast
  have t0: "total_spins default_SessionStats = 0"
    by (simp add: default_SessionStats_def)
  from steady_loop [OF t0] have two: "length (spin_history' (fst (?loop ?s0))) = 2"
    and st: "snd (?loop ?s0)
               = UpdateSessionStats (UpdateSessionStats default_SessionStats (losing_spin 1))
                   (losing_spin 2)"
    by auto
  from two len have n: "n = 2"
    by (simp add: example_controller_def)
  then have "(0::nat) < n" "(1::nat) < n"
    by simp_all
  with before have first: "\<not> ?stop (?after 0 ?s0)" "\<not> ?throws (?after 0 ?s0)"
    and second: "\<not> ?stop (?after 1 ?s0)" "\<not> ?throws (?after 1 ?s0)"
    by blast+
  from stats n have "total_spins (snd (?after 2 ?s0)) = total_spins (snd (?loop ?s0))"
    by simp
  also have "\<dots> = 2"
    by (simp add: st UpdateSessionStats_fields t0)
  finally have third: "?stop (?after 2 ?s0)"
    by (intro stop_condition_spin_cap) simp
  from window act V1Player_keeps_account first second third two
  show ?thesis by blast
qed

lemma Spin_bonus_only:
  "Spin bonus_only_machine bet False r now = Inl (RuntimeError ''Reel set not found: normal'')"
  by (simp add: Spin_def GenerateSpinGrid_def bonus_only_machine_def)

text \<open>
  Claim C5 as stated fails on a machine without a normal reel set: before the first spin
  the player continues with bet 2, which is offered and affordable, and no cap is reached;
  the spin throws, and the loop returns with no spin recorded and the bet debited.
\<close>

theorem session_ends_on_spin_exception:
  "\<not> stop_condition V1Player_MakeDecision example_clock 2 300
       (bonus_only_controller, default_SessionStats) \<and>
   spin_history' (fst (RunSession_loop V1Player_MakeDecision example_clock 2 300
                         (bonus_only_controller, default_SessionStats))) = [] \<and>
   snd (RunSession_loop V1Player_MakeDecision example_clock 2 300
          (bonus_only_controller, default_SessionStats)) = default_SessionStats \<and>
   balance' (player' bonus_only_controller) = 100 \<and>
   balance' (player' (fst (RunSession_loop V1Player_MakeDecision example_clock 2 300
                             (bonus_only_controller, default_SessionStats)))) = 98"
proof -
  let ?c = "bonus_only_controller"
  let ?st = "default_SessionStats"
  let ?p1 = "v1_player\<lparr>player_rng := rng_next (player_rng v1_player)\<rparr>"
  let ?d = "make_PlayerDecision 2 (0.1 + (1.0 - 0.1) * (real (player_rng v1_player 0 mod 2 ^ 64) / 2 ^ 64))"
  have bets: "available_bets (PrepareSessionData ?c) = [1, 2, 5]"
    by (simp add: PrepareSessionData_def GetBetOptions_def GetCurrency_def Let_def
        bonus_only_controller_def bonus_only_machine_def v1_player_def
        example_config_def example_player_config_def)
  have "V1Player_MakeDecision v1_player (machine_id (config' (machine' ?c))) (PrepareSessionData ?c)
          = (?d, ?p1)"
    by (rule v1_constant_decision) (simp_all add: bets v1_player_def)
  then have d: "decision_at V1Player_MakeDecision ?c = (?d, ?p1)"
    by (simp add: decision_at_def bonus_only_controller_def)
  have go: "\<not> stop_condition V1Player_MakeDecision example_clock 2 300 (?c, ?st)"
    by (simp only: stop_condition_def Let_def fst_conv snd_conv d)
       (simp add: make_PlayerDecision_def GetBetOptions_def
          GetCurrency_def GetBalance_def bonus_only_controller_def bonus_only_machine_def
          v1_player_def example_config_def example_player_config_def default_SessionStats_def
          example_clock_def)
  have act: "active' (player' ?c)"
    by (simp add: bonus_only_controller_def v1_player_def)
  have "Spin (machine' (?c\<lparr>player' := ?p1\<rparr>)) (decision_bet_amount ?d)
          (in_free_spins' (?c\<lparr>player' := ?p1\<rparr>)) (free_spins_remaining' (?c\<lparr>player' := ?p1\<rparr>))
          (spin_clock example_clock (length (spin_history' (?c\<lparr>player' := ?p1\<rparr>))))
        = Inl (RuntimeError ''Reel set not found: normal'')"
    by (simp add: bonus_only_controller_def Spin_bonus_only)
  from ExecuteSpin_of_exception [OF this, of ?st]
    not_stop_condition [OF act V1Player_keeps_account d go]
  have body: "RunSession_body V1Player_MakeDecision example_clock 2 300 (?c, ?st)
          = Inl (?c\<lparr>player' := ?p1, player' := UpdateBalance (player' (?c\<lparr>player' := ?p1\<rparr>)) (- decision_bet_amount ?d)\<rparr>, ?st)"
    by simp
  then have loop: "RunSession_loop V1Player_MakeDecision example_clock 2 300 (?c, ?st)
          = (?c\<lparr>player' := ?p1, player' := UpdateBalance (player' (?c\<lparr>player' := ?p1\<rparr>)) (- decision_bet_amount ?d)\<rparr>, ?st)"
    by (simp add: RunSession_loop.simps [of V1Player_MakeDecision example_clock 2 300 "(?c, ?st)"])
  have "spin_history' ?c = []" "balance' (player' ?c) = 100"
    by (simp_all add: bonus_only_controller_def v1_player_def)
  with go show ?thesis
    by (simp only: loop) (simp add: UpdateBalance_def make_PlayerDecision_def v1_player_def)
qed

section \<open>Shutdown of the thread pool\<close>

lemma pool_run_Nil: "pool_run pool [] = pool"
  by (simp add: pool_run_def)

lemma pool_run_snoc: "pool_run pool (events @ [ev]) = pool_step (pool_run pool events) ev"
  by (simp add: pool_run_def)

lemma WorkerThread_pass_shutdown:
  "shutdown' pool \<Longrightarrow>
   WorkerThread_pass pool thread_id = pool\<lparr>workers' := (workers' pool)[thread_id := Exited]\<rparr>"
  by (simp add: WorkerThread_pass_def)

lemma run_task_fields:
  "shutdown' (run_task pool t) = shutdown' pool"
  "workers' (run_task pool t) = workers' pool"
  "thread_count' (run_task pool t) = thread_count' pool"
  by (simp_all add: run_task_def)

lemma StealTask_loop_fields:
  "shutdown' (snd (StealTask_loop pool thread_id attempts)) = shutdown' pool \<and>
   workers' (snd (StealTask_loop pool thread_id attempts)) = workers' pool \<and>
   thread_count' (snd (StealTask_loop pool thread_id attempts)) = thread_count' pool"
  by (induction attempts) (auto simp: Let_def run_task_fields split: option.splits)

lemma ExecuteLocalTask_fields:
  "shutdown' (snd (ExecuteLocalTask pool thread_id)) = shutdown' pool \<and>
   workers' (snd (ExecuteLocalTask pool thread_id)) = workers' pool \<and>
   thread_count' (snd (ExecuteLocalTask pool thread_id)) = thread_count' pool"
  by (auto simp: ExecuteLocalTask_def run_task_fields split: option.splits)

lemma WorkerThread_pass_running:
  "\<not> shutdown' pool \<Longrightarrow>
   shutdown' (WorkerThread_pass pool thread_id) = shutdown' pool \<and>
   workers' (WorkerThread_pass pool thread_id) = workers' pool \<and>
   thread_count' (WorkerThread_pass pool thread_id) = thread_count' pool"
  using ExecuteLocalTask_fields [of pool thread_id]
    StealTask_loop_fields [of "snd (ExecuteLocalTask pool thread_id)" thread_id
      "[0..<thread_count' (snd (ExecuteLocalTask pool thread_id)) - 1]"]
  by (auto simp: WorkerThread_pass_def StealTask_def split: prod.splits bool.splits)

lemma pool_step_exited:
  assumes "\<forall>i<length (workers' pool). workers' pool ! i = Exited \<longrightarrow> shutdown' pool"
  shows "\<forall>i<length (workers' (pool_step pool ev)).
           workers' (pool_step pool ev) ! i = Exited \<longrightarrow> shutdown' (pool_step pool ev)"
proof (cases ev)
  case (WorkerPass thread_id)
  show ?thesis
  proof (cases "shutdown' pool")
    case True
    with WorkerPass show ?thesis
      by (simp add: pool_step_def WorkerThread_pass_shutdown)
  next
    case False
    with WorkerPass assms WorkerThread_pass_running [OF False, of thread_id] show ?thesis
      by (simp add: pool_step_def)
  qed
next
  case (Submit t target)
  with assms show ?thesis
    by (auto simp: pool_step_def)
next
  case Shutdown
  then show ?thesis
    by (simp add: pool_step_def)
qed

lemma pool_run_exited:
  "\<forall>i<length (workers' (pool_run (ThreadPool thread_count hardware) events)).
      workers' (pool_run (ThreadPool thread_count hardware) events) ! i = Exited \<longrightarrow>
      shutdown' (pool_run (ThreadPool thread_count hardware) events)"
proof (induction events rule: rev_induct)
  case Nil
  show ?case
    by (simp add: pool_run_Nil ThreadPool_def Let_def)
next
  case (snoc ev events)
  from pool_step_exited [OF snoc] show ?case
    by (simp add: pool_run_snoc)
qed

text \<open>
  Claim C9, as the code has it. In every state the pool can reach, a worker has left its
  loop only if the shutdown flag is set; and a worker that makes a pass once the flag is
  set leaves the loop at once: it runs no task, and every deque, its own included, stays
  as it is.
\<close>

theorem worker_exits_without_draining:
  assumes "pool = pool_run (ThreadPool thread_count hardware) events"
    and "thread_id < length (workers' pool)"
  shows "(workers' pool ! thread_id = Exited \<longrightarrow> shutdown' pool) \<and>
         (shutdown' pool \<longrightarrow>
            WorkerThread_pass pool thread_id
              = pool\<lparr>workers' := (workers' pool)[thread_id := Exited]\<rparr> \<and>
            queues' (WorkerThread_pass pool thread_id) = queues' pool \<and>
            executed (WorkerThread_pass pool thread_id) = executed pool)"
  using assms pool_run_exited [of thread_count hardware events]
  by (simp add: WorkerThread_pass_shutdown)

lemma shutdown_with_pending_task_run:
  "pool_run (ThreadPool 1 8) shutdown_with_pending_task
     = \<lparr>thread_count' = 1, shutdown' = True, queues' = [[7]], workers' = [Exited],
        total_tasks' = 0, executed = []\<rparr>"
  by (simp add: pool_run_def shutdown_with_pending_task_def ThreadPool_def pool_step_def
      WorkerThread_pass_def)

text \<open>
  Claim C9 as stated fails: after a submit and a shutdown, the only worker of a pool has
  left its loop while its deque still holds the task, which was never run.
\<close>

theorem worker_exits_with_pending_task:
  "shutdown' (pool_run (ThreadPool 1 8) shutdown_with_pending_task) \<and>
   workers' (pool_run (ThreadPool 1 8) shutdown_with_pending_task) ! 0 = Exited \<and>
   queues' (pool_run (ThreadPool 1 8) shutdown_with_pending_task) ! 0 = [7] \<and>
   executed (pool_run (ThreadPool 1 8) shutdown_with_pending_task) = []"
  by (simp add: shutdown_with_pending_task_run)

text \<open>The pool after the submit and the shutdown: the worker's pass leaves the task where it is.\<close>

theorem worker_exits_without_draining_witness:
  "(0::nat) < length (workers' (pool_run (ThreadPool 1 8) [Submit 7 0, Shutdown])) \<and>
   shutdown' (pool_run (ThreadPool 1 8) [Submit 7 0, Shutdown]) \<and>
   queues' (pool_run (ThreadPool 1 8) [Submit 7 0, Shutdown]) = [[7]] \<and>
   workers' (WorkerThread_pass (pool_run (ThreadPool 1 8) [Submit 7 0, Shutdown]) 0) = [Exited] \<and>
   queues' (WorkerThread_pass (pool_run (ThreadPool 1 8) [Submit 7 0, Shutdown]) 0) = [[7]] \<and>
   executed (WorkerThread_pass (pool_run (ThreadPool 1 8) [Submit 7 0, Shutdown]) 0) = []"
proof -
  have run: "pool_run (ThreadPool 1 8) [Submit 7 0, Shutdown]
               = \<lparr>thread_count' = 1, shutdown' = True, queues' = [[7]], workers' = [InLoop],
                  total_tasks' = 0, executed = []\<rparr>"
    by (simp add: pool_run_def ThreadPool_def pool_step_def)
  then have len: "0 < length (workers' (pool_run (ThreadPool 1 8) [Submit 7 0, Shutdown]))"
    by simp
  from worker_exits_without_draining [OF refl len] run show ?thesis
    by simp
qed

end
